theory Spec2Isabelle
  imports Main
begin

section \<open>JavaScript strings\<close>

text \<open>
  A string is a list of code units; \<^typ>\<open>char\<close> covers the code units below 256.
  \<open>isLineTerminator\<close> is the set a regular expression's \<open>.\<close> refuses,
  \<open>isWhiteSpace\<close> the set that \<open>String.prototype.trim\<close> removes and \<open>\s\<close> accepts.
\<close>

definition nl :: string where
  "nl = [CHR 0x0A]"

definition isLineTerminator :: "char \<Rightarrow> bool" where
  "isLineTerminator c \<longleftrightarrow> c = CHR 0x0A \<or> c = CHR 0x0D"

definition isWhiteSpace :: "char \<Rightarrow> bool" where
  "isWhiteSpace c \<longleftrightarrow>
     c = CHR 0x09 \<or> c = CHR 0x0A \<or> c = CHR 0x0B \<or> c = CHR 0x0C \<or> c = CHR 0x0D \<or>
     c = CHR 0x20 \<or> c = CHR 0xA0"

text \<open>\<open>s.trim()\<close>\<close>

definition trim :: "string \<Rightarrow> string" where
  "trim s = rev (dropWhile isWhiteSpace (rev (dropWhile isWhiteSpace s)))"

text \<open>
  \<open>s.split(sep)\<close> for a string separator: the pieces between the occurrences of \<open>sep\<close>,
  found from left to right without overlap. The result is never empty.
\<close>

fun split :: "string \<Rightarrow> string \<Rightarrow> string list" where
  "split sep [] = [[]]"
| "split sep (c # cs) =
     (if sep \<noteq> [] \<and> take (length sep) (c # cs) = sep
      then [] # split sep (drop (length sep) (c # cs))
      else (case split sep cs of [] \<Rightarrow> [[c]] | p # ps \<Rightarrow> (c # p) # ps))"

text \<open>\<open>s.replace(pat, rep)\<close> for a string pattern: only the first occurrence is replaced.\<close>

fun replace :: "string \<Rightarrow> string \<Rightarrow> string \<Rightarrow> string" where
  "replace pat rep [] = (if pat = [] then rep else [])"
| "replace pat rep (c # cs) =
     (if take (length pat) (c # cs) = pat then rep @ drop (length pat) (c # cs)
      else c # replace pat rep cs)"

text \<open>
  Array destructuring \<open>const [a, b] = xs\<close> reads the elements 0 and 1; a missing element
  is \<open>undefined\<close>, here \<open>None\<close>.
\<close>

fun element :: "'a list \<Rightarrow> nat \<Rightarrow> 'a option" where
  "element [] n = None"
| "element (x # xs) 0 = Some x"
| "element (x # xs) (Suc n) = element xs n"

section \<open>Values and exceptions\<close>

text \<open>
  The values that \<open>JSON.parse\<close> returns and that a response can carry, together with
  \<open>undefined\<close>. \<open>Num\<close> holds an integral number; an object is the list of its own
  properties, each name once.
\<close>

datatype jsval =
    Undefined
  | Null
  | Bool bool
  | Num int
  | Str string
  | Arr "jsval list"
  | Obj "(string \<times> jsval) list"

text \<open>
  The message of an exception object: the value given to \<open>new Error(v)\<close> (converted to a
  string by the constructor; a \<open>Str\<close> is kept as it is), or the text the engine gives its
  own TypeError and ReferenceError.
\<close>

datatype message =
    Message jsval
  | TypeErrorMessage
  | ReferenceErrorMessage string

datatype exn =
    Error message
  | TypeError
  | ReferenceError string

fun message_of :: "exn \<Rightarrow> message" where
  "message_of (Error m) = m"
| "message_of TypeError = TypeErrorMessage"
| "message_of (ReferenceError x) = ReferenceErrorMessage x"

text \<open>\<open>xs.map(f)\<close> where the callback may throw: the first exception ends the loop.\<close>

fun mapE :: "('a \<Rightarrow> exn + 'b) \<Rightarrow> 'a list \<Rightarrow> exn + 'b list" where
  "mapE f [] = Inr []"
| "mapE f (x # xs) =
     (case f x of
        Inl e \<Rightarrow> Inl e
      | Inr y \<Rightarrow> (case mapE f xs of Inl e \<Rightarrow> Inl e | Inr ys \<Rightarrow> Inr (y # ys)))"

section \<open>Language Normalizer\<close>

text \<open>
  The records built by the two parsers of \<open>handleDeckTypeSelection\<close>. \<open>translated\<close> is
  \<open>None\<close> when the property holds \<open>undefined\<close>, \<open>baseForm\<close> is \<open>None\<close> when the
  property is absent. The Selection Editor extends each record with \<open>selected\<close>.
\<close>

record card =
  original :: string
  translated :: "string option"
  baseForm :: "string option"

record word = card +
  selected :: bool

subsection \<open>The pattern \<open>/^(.*?)(?:\s*\((.*?)\))?$/\<close>\<close>

text \<open>
  \<open>paren_group r\<close> matches the optional group followed by the end of input against the
  rest \<open>r\<close>: all white space, an opening parenthesis, then lazily any characters but line
  terminators up to a closing parenthesis that is the last character. It returns the
  second capture.
\<close>

definition paren_group :: "string \<Rightarrow> string option" where
  "paren_group r =
     (case dropWhile isWhiteSpace r of
        [] \<Rightarrow> None
      | c # body \<Rightarrow>
          if c = CHR ''('' \<and> body \<noteq> [] \<and> last body = CHR '')'' \<and>
             (\<forall>x \<in> set (butlast body). \<not> isLineTerminator x)
          then Some (butlast body) else None)"

text \<open>
  \<open>original.match(...)\<close>: the first capture is lazy, so it grows one character at a time
  (never over a line terminator) until the group matches or the input ends. The result
  is the pair of captures \<open>(baseForm, originalForm)\<close>, or \<open>None\<close> for \<open>null\<close>.
\<close>

fun match_lhs :: "string \<Rightarrow> (string \<times> string option) option" where
  "match_lhs [] = Some ([], None)"
| "match_lhs (c # cs) =
     (case paren_group (c # cs) of
        Some originalForm \<Rightarrow> Some ([], Some originalForm)
      | None \<Rightarrow>
          if isLineTerminator c then None
          else map_option (\<lambda>(b, originalForm). (c # b, originalForm)) (match_lhs cs))"

subsection \<open>parseVocabulary\<close>

text \<open>
  The callback of the last \<open>map\<close> of the vocabulary branch: \<open>line.split(';')\<close>, each piece
  trimmed, the first two pieces destructured into \<open>original\<close> and \<open>translated\<close>.
\<close>

definition parseVocabularyLine :: "string \<Rightarrow> exn + card" where
  "parseVocabularyLine line =
     (let pieces = map trim (split '';'' line) in
      case element pieces 0 of
        None \<Rightarrow> Inl TypeError
      | Some lhs \<Rightarrow>
          (case match_lhs lhs of
             Some (base, originalForm) \<Rightarrow>
               Inr \<lparr>original = (case originalForm of
                                  None \<Rightarrow> base
                                | Some p \<Rightarrow> if p \<noteq> [] then p else base),
                    translated = element pieces 1,
                    baseForm = Some base\<rparr>
           | None \<Rightarrow>
               Inr \<lparr>original = lhs, translated = element pieces 1, baseForm = None\<rparr>))"

text \<open>\<open>wordList.split('\n').map((w) => w.trim()).filter(Boolean)\<close>\<close>

definition vocabularyLines :: "string \<Rightarrow> string list" where
  "vocabularyLines wordList = filter (\<lambda>w. w \<noteq> []) (map trim (split nl wordList))"

definition parseVocabulary :: "string \<Rightarrow> exn + card list" where
  "parseVocabulary wordList = mapE parseVocabularyLine (vocabularyLines wordList)"

subsection \<open>parseQA\<close>

text \<open>
  The callback of the Q and A branch: \<open>pair.split('\n')\<close> destructured into \<open>question\<close>
  and \<open>answer\<close>; calling \<open>replace\<close> on \<open>undefined\<close> throws a TypeError.
\<close>

definition parseQAPair :: "string \<Rightarrow> exn + card" where
  "parseQAPair pair =
     (let ls = split nl pair in
      case element ls 0 of
        None \<Rightarrow> Inl TypeError
      | Some question \<Rightarrow>
          (case element ls 1 of
             None \<Rightarrow> Inl TypeError
           | Some answer \<Rightarrow>
               Inr \<lparr>original = trim (replace ''A: '' [] answer),
                    translated = Some (trim (replace ''F: '' [] question)),
                    baseForm = None\<rparr>))"

text \<open>\<open>response.split('\n\n').filter(Boolean)\<close>\<close>

definition qaBlocks :: "string \<Rightarrow> string list" where
  "qaBlocks response = filter (\<lambda>b. b \<noteq> []) (split (nl @ nl) response)"

definition parseQA :: "string \<Rightarrow> exn + card list" where
  "parseQA response = mapE parseQAPair (qaBlocks response)"

section \<open>Deck Service Client\<close>

subsection \<open>buildPayload\<close>

text \<open>
  The first statements of \<open>sendRequestToApi\<close>. \<open>vocabObject\<close> starts as the plain object
  \<open>{}\<close> and is used as a dictionary from property names to strings, here a finite map
  of its own properties. The \<open>forEach\<close> loop assigns \<open>entry.original.trim()\<close> to the
  property named \<open>entry.translated.trim()\<close>; calling \<open>trim\<close> on \<open>undefined\<close> throws a
  TypeError. An assignment to the name \<open>__proto__\<close> reaches the accessor inherited from
  \<open>Object.prototype\<close>, which ignores a string: no own property is created.
\<close>

record payload =
  deck_name :: string
  vocabulary :: "string \<rightharpoonup> string"

definition assignProperty ::
  "(string \<rightharpoonup> string) \<Rightarrow> string \<Rightarrow> string \<Rightarrow> (string \<rightharpoonup> string)" where
  "assignProperty obj key v = (if key = ''__proto__'' then obj else obj(key \<mapsto> v))"

fun fillVocabObject ::
  "'a card_scheme list \<Rightarrow> (string \<rightharpoonup> string) \<Rightarrow> exn + (string \<rightharpoonup> string)" where
  "fillVocabObject [] vocabObject = Inr vocabObject"
| "fillVocabObject (entry # entries) vocabObject =
     (case translated entry of
        None \<Rightarrow> Inl TypeError
      | Some key \<Rightarrow>
          fillVocabObject entries
            (assignProperty vocabObject (trim key) (trim (original entry))))"

definition buildPayload :: "'a card_scheme list \<Rightarrow> string \<Rightarrow> exn + payload" where
  "buildPayload entries deckName =
     (case fillVocabObject entries Map.empty of
        Inl e \<Rightarrow> Inl e
      | Inr vocabObject \<Rightarrow>
          Inr \<lparr>deck_name = (if deckName \<noteq> [] then deckName else ''Default Deck''),
               vocabulary = vocabObject\<rparr>)"

text \<open>
  The properties the loop creates, in order: the key and value of every entry whose
  key is a string other than \<open>__proto__\<close>. Used to state what the loop computes.
\<close>

definition payloadPairs :: "'a card_scheme list \<Rightarrow> (string \<times> string) list" where
  "payloadPairs entries =
     List.map_filter
       (\<lambda>entry. case translated entry of
                  None \<Rightarrow> None
                | Some key \<Rightarrow>
                    if trim key = ''__proto__'' then None
                    else Some (trim key, trim (original entry)))
       entries"

subsection \<open>The transport\<close>

text \<open>
  A response body is either an ArrayBuffer, given by the text that
  \<open>new TextDecoder('utf-8').decode\<close> reads from it, or any other value.
\<close>

datatype body =
    ArrayBuffer string
  | Plain jsval

record http_response =
  status :: int
  data :: body

text \<open>
  What the \<open>catch\<close> block of \<open>sendRequestToApi\<close> reads from the caught object:
  \<open>error.response\<close>, \<open>error.code\<close>, whether \<open>error.request\<close> is truthy, and
  \<open>error.message\<close>. An exception thrown inside the \<open>try\<close> block has none of the first
  three.
\<close>

record error_object =
  response :: "http_response option"
  code :: "string option"
  request :: bool
  message :: message

definition thrown :: "exn \<Rightarrow> error_object" where
  "thrown e = \<lparr>response = None, code = None, request = False, message = message_of e\<rparr>"

text \<open>The promise returned by \<open>axios.post\<close>.\<close>

datatype outcome =
    Resolved http_response
  | Rejected error_object

subsection \<open>Reading values\<close>

definition truthy :: "jsval \<Rightarrow> bool" where
  "truthy v =
     (case v of
        Undefined \<Rightarrow> False
      | Null \<Rightarrow> False
      | Bool b \<Rightarrow> b
      | Num n \<Rightarrow> n \<noteq> 0
      | Str s \<Rightarrow> s \<noteq> []
      | Arr _ \<Rightarrow> True
      | Obj _ \<Rightarrow> True)"

text \<open>
  \<open>v.error\<close> and \<open>v.message\<close>: a TypeError on \<open>null\<close> and \<open>undefined\<close>, the own property
  of an object, \<open>undefined\<close> on every other value (none of them has a property of these
  two names).
\<close>

definition property :: "jsval \<Rightarrow> string \<Rightarrow> exn + jsval" where
  "property v k =
     (case v of
        Undefined \<Rightarrow> Inl TypeError
      | Null \<Rightarrow> Inl TypeError
      | Obj kvs \<Rightarrow> Inr (case map_of kvs k of None \<Rightarrow> Undefined | Some x \<Rightarrow> x)
      | _ \<Rightarrow> Inr Undefined)"

text \<open>\<open>v?.error\<close>\<close>

definition optional_property :: "jsval \<Rightarrow> string \<Rightarrow> jsval" where
  "optional_property v k =
     (case property v k of Inl _ \<Rightarrow> Undefined | Inr x \<Rightarrow> x)"

text \<open>The decimal digits of a number in a template literal.\<close>

fun decimal_nat :: "nat \<Rightarrow> string" where
  "decimal_nat n =
     (if n < 10 then [char_of (48 + n)]
      else decimal_nat (n div 10) @ [char_of (48 + n mod 10)])"

definition decimal :: "int \<Rightarrow> string" where
  "decimal i = (if i < 0 then ''-'' @ decimal_nat (nat (- i)) else decimal_nat (nat i))"

subsection \<open>The identifier \<open>t\<close>\<close>

text \<open>
  \<open>sendRequestToApi\<close> is an arrow function declared at the top level of the module. The
  identifiers it can resolve are its own parameters and locals, the module's imports and
  top-level declarations, and the globals of the host. Each screen component declares
  its own \<open>const t = (text) => getTranslation(selectedLanguage, text)\<close>, inside the
  component; none of these declarations encloses \<open>sendRequestToApi\<close>.
\<close>

definition module_scope :: "string list" where
  "module_scope =
     [''GEMINI_API_KEY'', ''React'', ''useState'', ''useEffect'', ''useCallback'', ''View'',
      ''Text'', ''TouchableOpacity'', ''TextInput'', ''ActivityIndicator'', ''ScrollView'',
      ''Alert'', ''Image'', ''StyleSheet'', ''Platform'', ''Ionicons'', ''ImagePicker'',
      ''axios'', ''languages'', ''translations'', ''getTranslation'', ''imageToBase64'',
      ''askLLM'', ''sendRequestToFlashExp'', ''sendRequestToApi'', ''styles'',
      ''WelcomeScreen'', ''LanguageScreen'', ''InputScreen'', ''TextInputScreen'',
      ''ProcessingScreen'', ''PreviewScreen'', ''SelectionScreen'', ''ResultScreen'',
      ''DeckTypeScreen'', ''RootApp'']"

definition host_globals :: "string list" where
  "host_globals =
     [''console'', ''window'', ''document'', ''process'', ''fetch'', ''FileReader'',
      ''Promise'', ''Boolean'', ''Error'', ''JSON'', ''TextDecoder'', ''ArrayBuffer'', ''Blob'',
      ''undefined'']"

definition sendRequestToApi_scope :: "string list" where
  "sendRequestToApi_scope =
     [''vocabulary'', ''deckName'', ''vocabObject'', ''entry'', ''payload'', ''response'',
      ''textDecoder'', ''textData'', ''jsonData'', ''e'', ''blob'', ''url'', ''link'', ''error'',
      ''errorMessage'', ''decoder'', ''text'', ''errorData'']
     @ module_scope @ host_globals"

text \<open>
  The call \<open>t(text)\<close> inside \<open>sendRequestToApi\<close>: resolving the identifier comes first and
  throws a ReferenceError when no binding is found. \<open>tr\<close> stands for the function a
  binding would hold.
\<close>

definition call_t :: "(string \<Rightarrow> string) \<Rightarrow> string \<Rightarrow> exn + string" where
  "call_t tr text =
     (if ''t'' \<in> set sendRequestToApi_scope then Inr (tr text)
      else Inl (ReferenceError ''t''))"

subsection \<open>Classifying a failure\<close>

text \<open>
  \<open>a || b || t('Server error')\<close> on the values read from the body.
\<close>

definition firstMessage :: "(string \<Rightarrow> string) \<Rightarrow> jsval \<Rightarrow> jsval \<Rightarrow> exn + jsval" where
  "firstMessage tr a b =
     (if truthy a then Inr a
      else if truthy b then Inr b
      else (case call_t tr ''Server error'' of Inl e \<Rightarrow> Inl e | Inr s \<Rightarrow> Inr (Str s)))"

text \<open>
  The body of the first \<open>try\<close> inside \<open>if (error.response)\<close>. \<open>parse\<close> is \<open>JSON.parse\<close>,
  with \<open>None\<close> for a SyntaxError. For an ArrayBuffer the nested \<open>try\<close> covers both the
  parse and the assignment, and its \<open>catch\<close> sets \<open>errorMessage = text\<close>.
\<close>

definition bodyMessage ::
  "(string \<Rightarrow> string) \<Rightarrow> (string \<Rightarrow> jsval option) \<Rightarrow> body \<Rightarrow> exn + jsval" where
  "bodyMessage tr parse d =
     (case d of
        ArrayBuffer text \<Rightarrow>
          (case parse text of
             None \<Rightarrow> Inr (Str text)
           | Some errorData \<Rightarrow>
               (case property errorData ''error'' of
                  Inl _ \<Rightarrow> Inr (Str text)
                | Inr a \<Rightarrow>
                    (case property errorData ''message'' of
                       Inl _ \<Rightarrow> Inr (Str text)
                     | Inr b \<Rightarrow>
                         (case firstMessage tr a b of
                            Inl _ \<Rightarrow> Inr (Str text)
                          | Inr m \<Rightarrow> Inr m))))
      | Plain v \<Rightarrow>
          firstMessage tr (optional_property v ''error'') (optional_property v ''message''))"

text \<open>The \<open>switch (error.response.status)\<close> of the outer \<open>catch\<close>.\<close>

definition statusTable :: "(string \<Rightarrow> string) \<Rightarrow> int \<Rightarrow> exn + jsval" where
  "statusTable tr st =
     (if st = 400 then map_sum id Str (call_t tr ''Bad Request'')
      else if st = 413 then map_sum id Str (call_t tr ''List too large'')
      else if st = 415 then map_sum id Str (call_t tr ''Invalid content type'')
      else if st = 429 then map_sum id Str (call_t tr ''Too many requests'')
      else if st = 500 then map_sum id Str (call_t tr ''Server error'')
      else map_sum id (\<lambda>s. Str (s @ '' ('' @ decimal st @ '')'')) (call_t tr ''Server error''))"

text \<open>
  The \<open>catch (error)\<close> block up to its last statement: the value of \<open>errorMessage\<close>, or
  the exception that leaves the block before \<open>throw new Error(errorMessage)\<close> is reached.
\<close>

definition errorMessage ::
  "(string \<Rightarrow> string) \<Rightarrow> (string \<Rightarrow> jsval option) \<Rightarrow> error_object \<Rightarrow> exn + message" where
  "errorMessage tr parse error =
     (case response error of
        Some r \<Rightarrow>
          (case bodyMessage tr parse (data r) of
             Inr m \<Rightarrow> Inr (Message m)
           | Inl _ \<Rightarrow> map_sum id Message (statusTable tr (status r)))
      | None \<Rightarrow>
          if code error = Some ''ECONNABORTED''
            then map_sum id (\<lambda>s. Message (Str s)) (call_t tr ''Request timeout'')
          else if code error = Some ''ERR_NETWORK''
            then map_sum id (\<lambda>s. Message (Str s)) (call_t tr ''Network error'')
          else if request error
            then map_sum id (\<lambda>s. Message (Str s)) (call_t tr ''No server response'')
          else Inr (message error))"

text \<open>The exception with which the \<open>catch\<close> block ends.\<close>

definition classifyError ::
  "(string \<Rightarrow> string) \<Rightarrow> (string \<Rightarrow> jsval option) \<Rightarrow> error_object \<Rightarrow> exn" where
  "classifyError tr parse error =
     (case errorMessage tr parse error of Inl e \<Rightarrow> e | Inr m \<Rightarrow> Error m)"

subsection \<open>sendRequestToApi\<close>

text \<open>
  One run of \<open>sendRequestToApi\<close>: how the promise settles (\<open>Inr True\<close> for
  \<open>{ success: true }\<close>), the payloads handed to \<open>axios.post\<close>, and the files offered for
  download. \<open>post\<close> is the remote service. In the success path the check of the body for
  a JSON error sits in a \<open>try\<close> whose \<open>catch\<close> only writes a log line, so control reaches
  the download whenever \<open>response.data\<close> is truthy.
\<close>

record api_run =
  settled :: "exn + bool"
  posted :: "payload list"
  saved :: "(string \<times> body) list"

definition bodyTruthy :: "body \<Rightarrow> bool" where
  "bodyTruthy d = (case d of ArrayBuffer _ \<Rightarrow> True | Plain v \<Rightarrow> truthy v)"

definition sendRequestToApi ::
  "(string \<Rightarrow> string) \<Rightarrow> (string \<Rightarrow> jsval option) \<Rightarrow> (payload \<Rightarrow> outcome) \<Rightarrow>
   'a card_scheme list \<Rightarrow> string \<Rightarrow> api_run" where
  "sendRequestToApi tr parse post entries deckName =
     (case buildPayload entries deckName of
        Inl e \<Rightarrow>
          \<lparr>settled = Inl (classifyError tr parse (thrown e)), posted = [], saved = []\<rparr>
      | Inr p \<Rightarrow>
          (case post p of
             Rejected error \<Rightarrow>
               \<lparr>settled = Inl (classifyError tr parse error), posted = [p], saved = []\<rparr>
           | Resolved r \<Rightarrow>
               if bodyTruthy (data r)
               then \<lparr>settled = Inr True, posted = [p],
                     saved = [((if deckName \<noteq> [] then deckName else ''Anki-Cards'') @ ''.apkg'',
                               data r)]\<rparr>
               else \<lparr>settled =
                       Inl (classifyError tr parse
                              (thrown (Error (Message (Str ''Failed to generate Anki deck''))))),
                     posted = [p], saved = []\<rparr>))"

section \<open>Workflow State Machine and Selection Editor\<close>

datatype step = LanguageStep | InputStep | TextStep | DeckTypeStep | SelectionStep | ResultStep

datatype deck_type = Vocabulary | QA

datatype field = TranslatedField | OriginalField

record language =
  langCode :: string
  langName :: string
  flag :: string

text \<open>
  The \<open>useState\<close> cells of \<open>RootApp\<close> (\<open>step\<close> to \<open>inputText\<close>) and of \<open>SelectionScreen\<close>
  (\<open>selectedWords\<close>, \<open>isLoading\<close>), followed by what the handlers do to the outside:
  the dialogs opened by \<open>Alert.alert\<close>, the payloads posted and the files offered for
  download. \<open>downloadUrl\<close> is \<open>None\<close> for \<open>null\<close>.
\<close>

record world =
  step :: step
  selectedLanguage :: "language option"
  processing :: string
  downloadUrl :: "string option"
  extractedWords :: "card list"
  deckName :: string
  inputText :: string
  selectedWords :: "word list"
  isLoading :: bool
  alerts :: "(string \<times> message) list"
  requests :: "payload list"
  downloads :: "(string \<times> body) list"

definition initialWorld :: world where
  "initialWorld =
     \<lparr>step = LanguageStep, selectedLanguage = None, processing = [], downloadUrl = Some [],
      extractedWords = [], deckName = [], inputText = [], selectedWords = [],
      isLoading = False, alerts = [], requests = [], downloads = []\<rparr>"

definition alert :: "string \<Rightarrow> message \<Rightarrow> world \<Rightarrow> world" where
  "alert title m w = w\<lparr>alerts := alerts w @ [(title, m)]\<rparr>"

subsection \<open>Handlers of RootApp\<close>

definition resetApp :: "world \<Rightarrow> world" where
  "resetApp w =
     w\<lparr>step := LanguageStep, selectedLanguage := None, processing := [],
       downloadUrl := Some [], extractedWords := []\<rparr>"

definition handleTextProcessing :: "string \<Rightarrow> world \<Rightarrow> world" where
  "handleTextProcessing text w =
     (let w1 = w\<lparr>processing := ''Processing text...''\<rparr>;
          w2 = w1\<lparr>inputText := text\<rparr>;
          w3 = w2\<lparr>step := DeckTypeStep\<rparr>
      in w3\<lparr>processing := []\<rparr>)"

text \<open>
  \<open>handleDeckTypeSelection\<close>. Its argument \<open>content\<close> only enters the two prompts, which
  also read \<open>selectedLanguage.name\<close>, a TypeError on \<open>null\<close>; the prompts go to the
  language model and are not part of the state. \<open>nameReply\<close> and \<open>cardsReply\<close> are what
  the two calls of
  \<open>sendRequestToFlashExp\<close> settle with. \<open>generateCards\<close> is the \<open>try\<close> block: it returns
  the exception that left it, if any, and the state written up to there. Every exception
  ends in the same dialog, and \<open>finally\<close> clears \<open>processing\<close>.
\<close>

definition generateCards ::
  "deck_type \<Rightarrow> (exn + string) \<Rightarrow> (exn + string) \<Rightarrow> world \<Rightarrow> exn option \<times> world" where
  "generateCards ty nameReply cardsReply w =
     (case selectedLanguage w of
        None \<Rightarrow> (Some TypeError, w)
      | Some lang \<Rightarrow>
          (case nameReply of
             Inl e \<Rightarrow> (Some e, w)
           | Inr suggestedDeckName \<Rightarrow>
               (let w1 = w\<lparr>deckName := trim suggestedDeckName\<rparr>
                in case cardsReply of
                     Inl e \<Rightarrow> (Some e, w1)
                   | Inr reply \<Rightarrow>
                       (case (case ty of Vocabulary \<Rightarrow> parseVocabulary reply
                                       | QA \<Rightarrow> parseQA reply) of
                          Inl e \<Rightarrow> (Some e, w1)
                        | Inr cards \<Rightarrow>
                            (None, w1\<lparr>extractedWords := cards, step := SelectionStep\<rparr>)))))"

definition handleDeckTypeSelection ::
  "deck_type \<Rightarrow> (exn + string) \<Rightarrow> (exn + string) \<Rightarrow> world \<Rightarrow> world" where
  "handleDeckTypeSelection ty nameReply cardsReply w =
     (let w1 = w\<lparr>processing := ''Generating cards...''\<rparr>;
          (caught, w2) = generateCards ty nameReply cardsReply w1;
          w3 = (case caught of
                  None \<Rightarrow> w2
                | Some _ \<Rightarrow>
                    alert ''Error''
                      (Message (Str ''Failed to generate cards. Please try again.'')) w2)
      in w3\<lparr>processing := []\<rparr>)"

subsection \<open>Selection Editor\<close>

text \<open>The initial state of \<open>SelectionScreen\<close>: every word of the \<open>words\<close> prop, selected.\<close>

definition mountSelectionScreen :: "world \<Rightarrow> world" where
  "mountSelectionScreen w =
     w\<lparr>selectedWords := map (\<lambda>c. card.extend c (word.fields True)) (extractedWords w),
       isLoading := False\<rparr>"

definition toggleWord :: "nat \<Rightarrow> world \<Rightarrow> world" where
  "toggleWord index w =
     w\<lparr>selectedWords :=
         map (\<lambda>(i, word). if i = index then word\<lparr>selected := \<not> selected word\<rparr> else word)
           (enumerate 0 (selectedWords w))\<rparr>"

definition updateWord :: "nat \<Rightarrow> field \<Rightarrow> string \<Rightarrow> world \<Rightarrow> world" where
  "updateWord index fld v w =
     w\<lparr>selectedWords :=
         map (\<lambda>(i, word).
                if i = index
                then (case fld of TranslatedField \<Rightarrow> word\<lparr>translated := Some v\<rparr>
                                | OriginalField \<Rightarrow> word\<lparr>original := v\<rparr>)
                else word)
           (enumerate 0 (selectedWords w))\<rparr>"

text \<open>
  \<open>SelectionScreen.handleSubmit\<close>. Here \<open>t\<close> is the component's own translation helper,
  \<open>tr\<close>. With nothing selected the handler returns before it touches \<open>processing\<close>.
  Otherwise \<open>setProcessing\<close> receives the progress message; when that message is not
  empty, \<open>RootApp\<close> renders the processing screen in place of the selection screen,
  whose state is lost. So when \<open>finally\<close> has cleared \<open>processing\<close> and the step is still
  \<open>selection\<close>, the selection screen is mounted anew from \<open>extractedWords\<close>, every word
  selected; \<open>setIsLoading(false)\<close> then finds no mounted screen to update.
\<close>

definition handleSubmit ::
  "(string \<Rightarrow> string) \<Rightarrow> (string \<Rightarrow> jsval option) \<Rightarrow> (payload \<Rightarrow> outcome) \<Rightarrow> world \<Rightarrow> world" where
  "handleSubmit tr parse post w =
     (let w1 = w\<lparr>isLoading := True\<rparr>;
          finalWords = filter selected (selectedWords w1)
      in if length finalWords = 0
         then (alert (tr ''Error'') (Message (Str (tr ''Please select at least one word.''))) w1)
                \<lparr>isLoading := False\<rparr>
         else
           (let w2 = w1\<lparr>processing := tr ''Generating Anki deck...''\<rparr>;
                run = sendRequestToApi tr parse post finalWords (deckName w2);
                w3 = w2\<lparr>requests := requests w2 @ posted run,
                        downloads := downloads w2 @ saved run\<rparr>;
                w4 = (case settled run of
                        Inr success \<Rightarrow>
                          if success
                          then (alert (tr ''Success!'')
                                  (Message (Str (tr ''Your Anki deck has been downloaded!''))) w3)
                                 \<lparr>downloadUrl := None, step := ResultStep\<rparr>
                          else alert (tr ''Error'')
                                 (Message (Str (tr ''Failed to generate deck''))) w3
                      | Inl error \<Rightarrow> alert (tr ''Error'') (message_of error) w3);
                w5 = w4\<lparr>processing := []\<rparr>
            in if processing w2 \<noteq> [] \<and> step w5 = SelectionStep
               then mountSelectionScreen w5
               else w5\<lparr>isLoading := False\<rparr>))"

subsection \<open>What each screen offers\<close>

datatype screen =
    ProcessingScreen
  | LanguageScreen
  | InputScreen
  | TextInputScreen
  | SelectionScreen
  | ResultScreen
  | DeckTypeScreen

text \<open>The \<open>return\<close> statements of \<open>RootApp\<close>.\<close>

definition render :: "world \<Rightarrow> screen" where
  "render w =
     (if processing w \<noteq> [] then ProcessingScreen
      else (case step w of
              LanguageStep \<Rightarrow> LanguageScreen
            | InputStep \<Rightarrow> InputScreen
            | TextStep \<Rightarrow> TextInputScreen
            | SelectionStep \<Rightarrow> SelectionScreen
            | ResultStep \<Rightarrow> ResultScreen
            | DeckTypeStep \<Rightarrow> DeckTypeScreen))"

text \<open>
  The user's actions, each with what the outside answers during the handler. The
  camera and gallery buttons of the input screen are not among them: their handlers
  belong to the capture path.
\<close>

datatype event =
    SelectLanguage language
  | EnterText
  | SubmitText string
  | SelectType deck_type "exn + string" "exn + string"
  | ToggleWord nat
  | UpdateWord nat field string
  | Submit "payload \<Rightarrow> outcome"
  | Reset

text \<open>
  \<open>fire\<close> runs the handler that the rendered screen binds to the action; \<open>None\<close> when
  the screen has no such control or the control is disabled.
\<close>

definition fire ::
  "(string \<Rightarrow> string) \<Rightarrow> (string \<Rightarrow> jsval option) \<Rightarrow> event \<Rightarrow> world \<Rightarrow> world option" where
  "fire tr parse ev w =
     (case ev of
        SelectLanguage lang \<Rightarrow>
          if render w = LanguageScreen
          then Some (w\<lparr>selectedLanguage := Some lang, step := InputStep\<rparr>) else None
      | EnterText \<Rightarrow>
          if render w = InputScreen then Some (w\<lparr>step := TextStep\<rparr>) else None
      | SubmitText text \<Rightarrow>
          if render w = TextInputScreen \<and> text \<noteq> []
          then Some (handleTextProcessing text (w\<lparr>inputText := text\<rparr>)) else None
      | SelectType ty nameReply cardsReply \<Rightarrow>
          if render w = DeckTypeScreen
          then (let w' = handleDeckTypeSelection ty nameReply cardsReply w
                in Some (if step w' = SelectionStep then mountSelectionScreen w' else w'))
          else None
      | ToggleWord index \<Rightarrow>
          if render w = SelectionScreen then Some (toggleWord index w) else None
      | UpdateWord index fld v \<Rightarrow>
          if render w = SelectionScreen then Some (updateWord index fld v w) else None
      | Submit post \<Rightarrow>
          if render w = SelectionScreen \<and>
             \<not> (length (filter selected (selectedWords w)) = 0 \<or> isLoading w)
          then Some (handleSubmit tr parse post w) else None
      | Reset \<Rightarrow>
          if render w = ResultScreen then Some (resetApp w) else None)"

section \<open>Properties of the string operations\<close>

lemma split_nonempty: "split sep s \<noteq> []"
  by (induction s) (auto split: list.splits)

lemma split_no_sep: "c \<notin> set s \<Longrightarrow> split [c] s = [s]"
  by (induction s) auto

lemma split_at_sep: "c \<notin> set a \<Longrightarrow> split [c] (a @ c # b) = a # split [c] b"
  by (induction a) auto

lemma trim_fixed:
  assumes "s \<noteq> []" "\<not> isWhiteSpace (hd s)" "\<not> isWhiteSpace (last s)"
  shows "trim s = s"
proof -
  from assms have a: "dropWhile isWhiteSpace s = s"
    by (cases s) auto
  from assms have "rev s \<noteq> []" "\<not> isWhiteSpace (hd (rev s))"
    by (simp_all add: hd_rev)
  then have "dropWhile isWhiteSpace (rev s) = rev s"
    by (cases "rev s") auto
  with a show ?thesis by (simp add: trim_def)
qed

lemma trim_fixedD:
  assumes "trim s = s" "s \<noteq> []"
  shows "\<not> isWhiteSpace (hd s) \<and> \<not> isWhiteSpace (last s)"
proof -
  define d where "d = dropWhile isWhiteSpace s"
  define e where "e = dropWhile isWhiteSpace (rev d)"
  from assms(1) have s: "rev e = s" by (simp add: trim_def d_def e_def)
  with assms(2) have ne: "e \<noteq> []" by auto
  then have "\<not> isWhiteSpace (hd e)" unfolding e_def by (rule hd_dropWhile)
  moreover have "hd e = last s" using s ne by (metis last_rev)
  ultimately have l: "\<not> isWhiteSpace (last s)" by simp
  have "length e \<le> length (rev d)" unfolding e_def by (rule length_dropWhile_le)
  then have "length s \<le> length d" using s by (metis length_rev)
  moreover have "length d \<le> length s" unfolding d_def by (rule length_dropWhile_le)
  ultimately have "length d = length s" by simp
  moreover have "takeWhile isWhiteSpace s @ d = s" unfolding d_def by simp
  ultimately have "d = s"
    by (metis append_eq_append_conv append_Nil)
  then have "dropWhile isWhiteSpace s \<noteq> []" "dropWhile isWhiteSpace s = s"
    using assms(2) by (simp_all add: d_def)
  then have "\<not> isWhiteSpace (hd s)" using hd_dropWhile by metis
  with l show ?thesis by simp
qed

lemma paren_group_needs_paren: "paren_group r = Some p \<Longrightarrow> CHR ''('' \<in> set r"
proof -
  assume a: "paren_group r = Some p"
  then obtain body where "dropWhile isWhiteSpace r = CHR ''('' # body"
    by (auto simp: paren_group_def split: list.splits if_splits)
  then have "CHR ''('' \<in> set (dropWhile isWhiteSpace r)" by simp
  then show ?thesis by (meson set_dropWhileD)
qed

lemma match_lhs_plain:
  "CHR ''('' \<notin> set s \<Longrightarrow> \<forall>c\<in>set s. \<not> isLineTerminator c \<Longrightarrow> match_lhs s = Some (s, None)"
proof (induction s)
  case Nil
  then show ?case by simp
next
  case (Cons c cs)
  have "paren_group (c # cs) = None"
  proof (cases "paren_group (c # cs)")
    case (Some p)
    then have "CHR ''('' \<in> set (c # cs)" by (rule paren_group_needs_paren)
    with Cons.prems show ?thesis by simp
  qed simp
  with Cons show ?case by simp
qed

lemma paren_group_hit:
  "\<forall>c\<in>set p. \<not> isLineTerminator c \<Longrightarrow> paren_group ('' ('' @ p @ '')'') = Some p"
  by (simp add: paren_group_def isWhiteSpace_def)

lemma paren_group_miss:
  assumes "s \<noteq> []" "\<not> isWhiteSpace (last s)" "CHR ''('' \<notin> set s"
  shows "paren_group (s @ r) = None"
proof -
  from assms have "last s \<in> set s" "\<not> isWhiteSpace (last s)" by simp_all
  then have d: "dropWhile isWhiteSpace (s @ r) = dropWhile isWhiteSpace s @ r"
    by (rule dropWhile_append1)
  have ne: "dropWhile isWhiteSpace s \<noteq> []"
    using assms(1,2) by (metis dropWhile_eq_Nil_conv last_in_set)
  then obtain c cs where cs: "dropWhile isWhiteSpace s = c # cs" by (cases "dropWhile isWhiteSpace s") auto
  then have "c \<in> set s" by (metis list.set_intros(1) set_dropWhileD)
  with assms(3) have "c \<noteq> CHR ''(''" by auto
  with d cs show ?thesis by (simp add: paren_group_def)
qed

lemma match_lhs_paren:
  assumes "s = [] \<or> \<not> isWhiteSpace (last s)" "CHR ''('' \<notin> set s" "\<forall>c\<in>set s. \<not> isLineTerminator c"
    "\<forall>c\<in>set p. \<not> isLineTerminator c"
  shows "match_lhs (s @ '' ('' @ p @ '')'') = Some (s, Some p)"
  using assms
proof (induction s)
  case Nil
  have "paren_group ('' ('' @ p @ '')'') = Some p" using Nil.prems(4) by (rule paren_group_hit)
  then show ?case by simp
next
  case (Cons c cs)
  have "paren_group ((c # cs) @ '' ('' @ p @ '')'') = None"
    using Cons.prems by (intro paren_group_miss) auto
  moreover have "match_lhs (cs @ '' ('' @ p @ '')'') = Some (cs, Some p)"
    using Cons.prems by (intro Cons.IH) (auto split: if_splits)
  ultimately show ?case using Cons.prems by simp
qed

lemma mapE_total:
  "(\<And>x. x \<in> set xs \<Longrightarrow> \<exists>y. f x = Inr y) \<Longrightarrow>
   \<exists>ys. mapE f xs = Inr ys \<and> length ys = length xs \<and> (\<forall>i<length xs. f (xs ! i) = Inr (ys ! i))"
proof (induction xs)
  case Nil
  then show ?case by simp
next
  case (Cons x xs)
  from Cons.prems obtain y where y: "f x = Inr y" by auto
  from Cons obtain ys where ys: "mapE f xs = Inr ys" "length ys = length xs"
    "\<forall>i<length xs. f (xs ! i) = Inr (ys ! i)" by auto
  have "\<forall>i<length (x # xs). f ((x # xs) ! i) = Inr ((y # ys) ! i)"
  proof (intro allI impI)
    fix i assume "i < length (x # xs)"
    then show "f ((x # xs) ! i) = Inr ((y # ys) ! i)"
      using y ys(3) by (cases i) auto
  qed
  with y ys show ?case by simp
qed

lemma mapE_fail:
  "x \<in> set xs \<Longrightarrow> f x = Inl e \<Longrightarrow> (\<And>y e'. y \<in> set xs \<Longrightarrow> f y = Inl e' \<Longrightarrow> e' = e) \<Longrightarrow>
   mapE f xs = Inl e"
proof (induction xs)
  case Nil
  then show ?case by simp
next
  case (Cons a xs)
  show ?case
  proof (cases "f a")
    case (Inl e')
    with Cons.prems(3)[of a e'] show ?thesis by simp
  next
    case (Inr y)
    with Cons.prems have "x \<in> set xs" by auto
    then have "mapE f xs = Inl e" using Cons.prems by (intro Cons.IH) auto
    with Inr show ?thesis by simp
  qed
qed

lemma mapE_Inr_nth:
  "mapE f xs = Inr ys \<Longrightarrow> length ys = length xs \<and> (\<forall>i<length xs. f (xs ! i) = Inr (ys ! i))"
proof (induction xs arbitrary: ys)
  case Nil
  then show ?case by simp
next
  case (Cons x xs)
  from Cons.prems obtain y zs where y: "f x = Inr y" and zs: "mapE f xs = Inr zs"
    and ys: "ys = y # zs"
    by (auto split: sum.splits)
  from Cons.IH[OF zs] have ih: "length zs = length xs" "\<forall>i<length xs. f (xs ! i) = Inr (zs ! i)"
    by simp_all
  have "\<forall>i<length (x # xs). f ((x # xs) ! i) = Inr (ys ! i)"
  proof (intro allI impI)
    fix i assume "i < length (x # xs)"
    then show "f ((x # xs) ! i) = Inr (ys ! i)"
      using y ih(2) ys by (cases i) auto
  qed
  with ih(1) ys show ?case by simp
qed

lemma element_map: "element (map f xs) n = map_option f (element xs n)"
  by (induction xs n rule: element.induct) auto

lemma element_split_0: "\<exists>p. element (split sep s) 0 = Some p"
  using split_nonempty[of sep s] by (cases "split sep s") auto

lemma parseVocabularyLine_total: "\<exists>c. parseVocabularyLine l = Inr c"
proof -
  obtain p where "element (split '';'' l) 0 = Some p" using element_split_0 by blast
  then show ?thesis
    by (auto simp: parseVocabularyLine_def Let_def element_map split: option.splits)
qed

lemma parseVocabularyLine_translated:
  "parseVocabularyLine l = Inr c \<Longrightarrow> translated c = map_option trim (element (split '';'' l) 1)"
  by (auto simp: parseVocabularyLine_def Let_def element_map split: option.splits)

lemma element_1_split_iff: "element (split [c] s) (Suc 0) = None \<longleftrightarrow> c \<notin> set s"
proof (induction s)
  case Nil
  then show ?case by simp
next
  case (Cons a s)
  obtain p ps where ps: "split [c] s = p # ps" using split_nonempty[of "[c]" s] by (cases "split [c] s") auto
  obtain q where q: "element (split [c] s) 0 = Some q" using element_split_0 by blast
  show ?case using Cons ps q by auto
qed

lemma vocabularyLines_single:
  assumes "CHR 0x0A \<notin> set l" "trim l = l" "l \<noteq> []"
  shows "vocabularyLines l = [l]"
  using assms by (simp add: vocabularyLines_def nl_def split_no_sep)

lemma parseVocabularyLine_two_pieces:
  assumes "CHR '';'' \<notin> set lhs" "CHR '';'' \<notin> set rhs" "trim lhs = lhs"
    "match_lhs lhs = Some (b, p)"
  shows "parseVocabularyLine (lhs @ '';'' @ rhs) =
     Inr \<lparr>original = (case p of None \<Rightarrow> b | Some q \<Rightarrow> if q \<noteq> [] then q else b),
          translated = Some (trim rhs), baseForm = Some b\<rparr>"
proof -
  have "split '';'' (lhs @ '';'' @ rhs) = [lhs, rhs]"
    using assms(1,2) by (simp add: split_at_sep split_no_sep)
  then show ?thesis using assms(3,4) by (simp add: parseVocabularyLine_def)
qed


text \<open>
  Both parsers work piece by piece: when the parse returns, its \<open>i\<close>-th record is what
  the callback returns for the \<open>i\<close>-th line or block.
\<close>

lemma parseVocabulary_nth:
  "parseVocabulary s = Inr cs \<Longrightarrow> i < length cs \<Longrightarrow>
   parseVocabularyLine (vocabularyLines s ! i) = Inr (cs ! i)"
  using mapE_Inr_nth[of parseVocabularyLine "vocabularyLines s" cs]
  by (simp add: parseVocabulary_def)

lemma parseQA_nth:
  "parseQA s = Inr cs \<Longrightarrow> i < length cs \<Longrightarrow> parseQAPair (qaBlocks s ! i) = Inr (cs ! i)"
  using mapE_Inr_nth[of parseQAPair "qaBlocks s" cs]
  by (simp add: parseQA_def)

lemma parseVocabulary_example:
  "parseVocabulary (''a;b'' @ nl @ ''cccc'' @ nl @ ''d;e'') =
     Inr [\<lparr>original = ''a'', translated = Some ''b'', baseForm = Some ''a''\<rparr>,
          \<lparr>original = ''cccc'', translated = None, baseForm = Some ''cccc''\<rparr>,
          \<lparr>original = ''d'', translated = Some ''e'', baseForm = Some ''d''\<rparr>]"
  by code_simp

lemma vocabularyLines_example:
  "vocabularyLines (''a;b'' @ nl @ ''cccc'' @ nl @ ''d;e'') = [''a;b'', ''cccc'', ''d;e'']"
  by code_simp

lemma split2_no_nl: "CHR 0x0A \<notin> set s \<Longrightarrow> split (nl @ nl) s = [s]"
  by (induction s) (auto simp: nl_def)

lemma split2_one_nl:
  "CHR 0x0A \<notin> set p \<Longrightarrow> CHR 0x0A \<notin> set r \<Longrightarrow> r \<noteq> [] \<Longrightarrow>
   split (nl @ nl) (p @ nl @ r) = [p @ nl @ r]"
proof (induction p)
  case Nil
  then obtain c cs where r: "r = c # cs" by (cases r) auto
  with Nil have "c \<noteq> CHR 0x0A" by auto
  with Nil r show ?case by (simp add: nl_def split2_no_nl[unfolded nl_def, simplified])
next
  case (Cons a p)
  then show ?case by (auto simp: nl_def)
qed

lemma split2_tail:
  "CHR 0x0A \<notin> set r \<Longrightarrow> split (nl @ nl) (r @ nl @ nl @ rest) = r # split (nl @ nl) rest"
  by (induction r) (auto simp: nl_def)

lemma split2_block:
  "CHR 0x0A \<notin> set p \<Longrightarrow> CHR 0x0A \<notin> set r \<Longrightarrow> r \<noteq> [] \<Longrightarrow>
   split (nl @ nl) (p @ nl @ r @ nl @ nl @ rest) = (p @ nl @ r) # split (nl @ nl) rest"
proof (induction p)
  case Nil
  then obtain c cs where r: "r = c # cs" by (cases r) auto
  with Nil have c: "c \<noteq> CHR 0x0A" by auto
  have "split (nl @ nl) (r @ nl @ nl @ rest) = r # split (nl @ nl) rest"
    using Nil.prems(2) by (rule split2_tail)
  with r c show ?case by (simp add: nl_def)
next
  case (Cons x p)
  then have "split (nl @ nl) (p @ nl @ r @ nl @ nl @ rest) = (p @ nl @ r) # split (nl @ nl) rest"
    by simp
  with Cons.prems show ?case by (auto simp: nl_def)
qed

lemma parseQAPair_cases:
  "parseQAPair b =
     (case element (split nl b) 1 of
        None \<Rightarrow> Inl TypeError
      | Some answer \<Rightarrow>
          Inr \<lparr>original = trim (replace ''A: '' [] answer),
               translated = map_option (\<lambda>q. trim (replace ''F: '' [] q)) (element (split nl b) 0),
               baseForm = None\<rparr>)"
proof -
  obtain q where "element (split nl b) 0 = Some q" using element_split_0 by blast
  then show ?thesis by (simp add: parseQAPair_def Let_def split: option.splits)
qed

lemma parseQAPair_single_line: "CHR 0x0A \<notin> set b \<Longrightarrow> parseQAPair b = Inl TypeError"
  using element_1_split_iff[of "CHR 0x0A" b]
  by (simp add: parseQAPair_cases nl_def)

lemma parseQAPair_two_lines:
  assumes "CHR 0x0A \<in> set b"
  shows "\<exists>c. parseQAPair b = Inr c \<and>
     translated c = map_option (\<lambda>q. trim (replace ''F: '' [] q)) (element (split nl b) 0) \<and>
     Some (original c) = map_option (\<lambda>a. trim (replace ''A: '' [] a)) (element (split nl b) 1) \<and>
     baseForm c = None"
proof -
  from assms obtain a where "element (split nl b) 1 = Some a"
    using element_1_split_iff[of "CHR 0x0A" b] by (auto simp: nl_def)
  then show ?thesis by (simp add: parseQAPair_cases)
qed

lemma parseQAPair_error: "parseQAPair b = Inl e \<Longrightarrow> e = TypeError"
  by (auto simp: parseQAPair_cases split: option.splits)

lemma qaBlocks_example:
  "qaBlocks (''F: q'' @ nl @ ''A: a'' @ nl @ ''extra'' @ nl @ nl @ nl @ ''F: q2'' @ nl @ ''A: a2'') =
     [''F: q'' @ nl @ ''A: a'' @ nl @ ''extra'', nl @ ''F: q2'' @ nl @ ''A: a2'']"
  by code_simp

lemma qaBlocks_single_line: "qaBlocks ''F: only a question'' = [''F: only a question'']"
  by code_simp

section \<open>Language Normalizer: vocabulary\<close>

text \<open>
  C1, as the code has it. \<open>parseVocabulary\<close> never raises and keeps every trimmed
  non-empty line: the output has one entry per such line, in the order of the lines,
  and the entry of a line has \<open>translated\<close> undefined exactly when the line contains no
  \<open>;\<close>. Nothing is dropped, so the input \<open>a;b\ncccc\nd;e\<close> yields three entries.
\<close>

theorem parseVocabulary_keeps_every_line:
  "(\<exists>cs. parseVocabulary s = Inr cs \<and> length cs = length (vocabularyLines s) \<and>
      (\<forall>i<length cs.
         (translated (cs ! i) = None) = (CHR '';'' \<notin> set (vocabularyLines s ! i)))) \<and>
   (\<exists>cs. parseVocabulary (''a;b'' @ nl @ ''cccc'' @ nl @ ''d;e'') = Inr cs \<and> length cs = 3)"
proof -
  obtain cs where cs: "mapE parseVocabularyLine (vocabularyLines s) = Inr cs"
    "length cs = length (vocabularyLines s)"
    "\<forall>i<length (vocabularyLines s). parseVocabularyLine (vocabularyLines s ! i) = Inr (cs ! i)"
    using mapE_total[of "vocabularyLines s" parseVocabularyLine] parseVocabularyLine_total
    by blast
  have "\<forall>i<length cs. (translated (cs ! i) = None) = (CHR '';'' \<notin> set (vocabularyLines s ! i))"
  proof (intro allI impI)
    fix i assume "i < length cs"
    with cs have "parseVocabularyLine (vocabularyLines s ! i) = Inr (cs ! i)" by simp
    then have "translated (cs ! i) =
        map_option trim (element (split '';'' (vocabularyLines s ! i)) 1)"
      by (rule parseVocabularyLine_translated)
    then show "(translated (cs ! i) = None) = (CHR '';'' \<notin> set (vocabularyLines s ! i))"
      using element_1_split_iff[of "CHR '';''" "vocabularyLines s ! i"] by simp
  qed
  with cs have "\<exists>cs. parseVocabulary s = Inr cs \<and> length cs = length (vocabularyLines s) \<and>
      (\<forall>i<length cs.
         (translated (cs ! i) = None) = (CHR '';'' \<notin> set (vocabularyLines s ! i)))"
    by (auto simp: parseVocabulary_def)
  moreover have "\<exists>cs. parseVocabulary (''a;b'' @ nl @ ''cccc'' @ nl @ ''d;e'') = Inr cs \<and>
      length cs = 3"
    unfolding parseVocabulary_example by simp
  ultimately show ?thesis by (rule conjI)
qed

text \<open>
  The theorem at the input of the claim: the second of the three lines has no \<open>;\<close>, and
  its entry is there, with \<open>translated\<close> undefined.
\<close>

theorem parseVocabulary_keeps_every_line_witness:
  "\<exists>cs. parseVocabulary (''a;b'' @ nl @ ''cccc'' @ nl @ ''d;e'') = Inr cs \<and> length cs = 3 \<and>
        translated (cs ! 1) = None"
proof -
  let ?s = "''a;b'' @ nl @ ''cccc'' @ nl @ ''d;e''"
  from parseVocabulary_keeps_every_line[of ?s]
  obtain cs where cs: "parseVocabulary ?s = Inr cs" "length cs = length (vocabularyLines ?s)"
    "\<forall>i<length cs. (translated (cs ! i) = None) = (CHR '';'' \<notin> set (vocabularyLines ?s ! i))"
    by blast
  from cs(2) have len: "length cs = 3" unfolding vocabularyLines_example by simp
  then have "1 < length cs" by simp
  with cs(3) have "(translated (cs ! 1) = None) = (CHR '';'' \<notin> set (vocabularyLines ?s ! 1))"
    by blast
  then have "translated (cs ! 1) = None" unfolding vocabularyLines_example by simp
  with cs(1) len show ?thesis by blast
qed

text \<open>
  C1 as stated fails: the claim's own input yields three entries, not two, and the
  entry of the line \<open>cccc\<close> has no \<open>translated\<close>.
\<close>

theorem parseVocabulary_drop_counterexample:
  "parseVocabulary (''a;b'' @ nl @ ''cccc'' @ nl @ ''d;e'') =
     Inr [\<lparr>original = ''a'', translated = Some ''b'', baseForm = Some ''a''\<rparr>,
          \<lparr>original = ''cccc'', translated = None, baseForm = Some ''cccc''\<rparr>,
          \<lparr>original = ''d'', translated = Some ''e'', baseForm = Some ''d''\<rparr>]"
  by (rule parseVocabulary_example)

text \<open>
  C5, as the code has it. Take \<open>base\<close>, \<open>orig\<close> and \<open>translation\<close> free of \<open>;\<close> and of line
  breaks, with \<open>base\<close> non-empty, free of \<open>(\<close> and without surrounding white space,
  \<open>orig\<close> non-empty and \<open>translation\<close> without surrounding white space. The line
  \<open>base (orig);translation\<close> yields \<open>original = orig\<close>, \<open>translated = translation\<close>,
  \<open>baseForm = base\<close>. The line \<open>base;translation\<close> yields \<open>original = base\<close>,
  \<open>translated = translation\<close> and again \<open>baseForm = base\<close>: the first capture of the
  pattern is always stored, so \<open>baseForm\<close> is the word itself, not undefined. This is
  what the callback returns for the line, and what \<open>parseVocabulary\<close> returns for an
  input made of the line.
\<close>

theorem parseVocabulary_line_forms:
  assumes base: "base \<noteq> []" "trim base = base"
      "\<forall>c\<in>set base. c \<noteq> CHR '';'' \<and> c \<noteq> CHR ''('' \<and> \<not> isLineTerminator c"
    and orig: "orig \<noteq> []" "\<forall>c\<in>set orig. c \<noteq> CHR '';'' \<and> \<not> isLineTerminator c"
    and tr: "trim tr = tr" "\<forall>c\<in>set tr. c \<noteq> CHR '';'' \<and> c \<noteq> CHR 0x0A"
  shows "parseVocabularyLine (base @ '' ('' @ orig @ '')'' @ '';'' @ tr) =
           Inr \<lparr>original = orig, translated = Some tr, baseForm = Some base\<rparr> \<and>
         parseVocabularyLine (base @ '';'' @ tr) =
           Inr \<lparr>original = base, translated = Some tr, baseForm = Some base\<rparr> \<and>
         parseVocabulary (base @ '' ('' @ orig @ '')'' @ '';'' @ tr) =
           Inr [\<lparr>original = orig, translated = Some tr, baseForm = Some base\<rparr>] \<and>
         parseVocabulary (base @ '';'' @ tr) =
           Inr [\<lparr>original = base, translated = Some tr, baseForm = Some base\<rparr>]"
proof -
  have hb: "\<not> isWhiteSpace (hd base)" "\<not> isWhiteSpace (last base)"
    using trim_fixedD[OF base(2,1)] by simp_all
  have lt: "\<not> isWhiteSpace (last ('';'' @ tr))"
  proof (cases "tr = []")
    case True
    then show ?thesis by (simp add: isWhiteSpace_def)
  next
    case False
    then show ?thesis using trim_fixedD[OF tr(1)] by simp
  qed
  have nb: "CHR 0x0A \<notin> set base" "CHR '';'' \<notin> set base" "CHR ''('' \<notin> set base"
    "\<forall>c\<in>set base. \<not> isLineTerminator c"
    using base(3) by (auto simp: isLineTerminator_def)
  have no: "CHR 0x0A \<notin> set orig" "CHR '';'' \<notin> set orig" "\<forall>c\<in>set orig. \<not> isLineTerminator c"
    using orig(2) by (auto simp: isLineTerminator_def)
  have nt: "CHR 0x0A \<notin> set tr" "CHR '';'' \<notin> set tr" using tr(2) by auto
  let ?lhs = "base @ '' ('' @ orig @ '')''"
  have lhs_trim: "trim ?lhs = ?lhs"
    using base(1) hb by (intro trim_fixed) (simp_all add: isWhiteSpace_def)
  have lhs_semi: "CHR '';'' \<notin> set ?lhs" using nb no by simp
  have m1: "match_lhs ?lhs = Some (base, Some orig)"
    using hb(2) nb no by (intro match_lhs_paren) simp_all
  have m2: "match_lhs base = Some (base, None)"
    using nb by (intro match_lhs_plain) simp_all
  have l1: "parseVocabularyLine (?lhs @ '';'' @ tr) =
      Inr \<lparr>original = orig, translated = Some tr, baseForm = Some base\<rparr>"
    using parseVocabularyLine_two_pieces[OF lhs_semi nt(2) lhs_trim m1] orig(1) tr(1) by simp
  have l2: "parseVocabularyLine (base @ '';'' @ tr) =
      Inr \<lparr>original = base, translated = Some tr, baseForm = Some base\<rparr>"
    using parseVocabularyLine_two_pieces[OF nb(2) nt(2) base(2) m2] tr(1) by simp
  have t1: "trim (?lhs @ '';'' @ tr) = ?lhs @ '';'' @ tr"
    using base(1) hb(1) lt by (intro trim_fixed) simp_all
  have t2: "trim (base @ '';'' @ tr) = base @ '';'' @ tr"
    using base(1) hb(1) lt by (intro trim_fixed) simp_all
  have v1: "vocabularyLines (?lhs @ '';'' @ tr) = [?lhs @ '';'' @ tr]"
    using nb no nt t1 by (intro vocabularyLines_single) simp_all
  have v2: "vocabularyLines (base @ '';'' @ tr) = [base @ '';'' @ tr]"
    using nb nt t2 by (intro vocabularyLines_single) simp_all
  show ?thesis
    using l1 l2 v1 v2 by (simp add: parseVocabulary_def)
qed


text \<open>The theorem on the two lines of the prompt's own example format.\<close>

theorem parseVocabulary_line_forms_witness:
  "trim ''gemeinsam'' = ''gemeinsam'' \<and> trim ''common'' = ''common'' \<and>
   parseVocabulary ''gemeinsam (gemeinsamen);common'' =
     Inr [\<lparr>original = ''gemeinsamen'', translated = Some ''common'',
           baseForm = Some ''gemeinsam''\<rparr>] \<and>
   parseVocabulary ''gemeinsam;common'' =
     Inr [\<lparr>original = ''gemeinsam'', translated = Some ''common'',
           baseForm = Some ''gemeinsam''\<rparr>]"
proof -
  have b: "''gemeinsam'' \<noteq> []" "trim ''gemeinsam'' = ''gemeinsam''"
    "\<forall>c\<in>set ''gemeinsam''. c \<noteq> CHR '';'' \<and> c \<noteq> CHR ''('' \<and> \<not> isLineTerminator c"
    by (simp_all add: trim_def isWhiteSpace_def isLineTerminator_def)
  have p: "''gemeinsamen'' \<noteq> []"
    "\<forall>c\<in>set ''gemeinsamen''. c \<noteq> CHR '';'' \<and> \<not> isLineTerminator c"
    by (simp_all add: isLineTerminator_def)
  have t: "trim ''common'' = ''common''"
    "\<forall>c\<in>set ''common''. c \<noteq> CHR '';'' \<and> c \<noteq> CHR 0x0A"
    by (simp_all add: trim_def isWhiteSpace_def)
  show ?thesis
    using parseVocabulary_line_forms[OF b p t] b(2) t(1) by simp
qed

text \<open>
  C5 as stated fails on its second form: for \<open>word;translation\<close> the entry's
  \<open>baseForm\<close> is \<open>word\<close>, not undefined.
\<close>

theorem parseVocabulary_baseForm_counterexample:
  "parseVocabulary ''word;translation'' =
     Inr [\<lparr>original = ''word'', translated = Some ''translation'', baseForm = Some ''word''\<rparr>] \<and>
   parseVocabulary ''word;translation'' \<noteq>
     Inr [\<lparr>original = ''word'', translated = Some ''translation'', baseForm = None\<rparr>]"
  by code_simp

text \<open>
  C6, as the code has it. The line is split at every \<open>;\<close> and only the first two pieces
  are read: for a line \<open>lhs;mid;rest\<close>, where \<open>lhs\<close> and \<open>mid\<close> have no \<open>;\<close>, the entry's
  \<open>translated\<close> is \<open>mid\<close> trimmed, and the entry is the one of the line \<open>lhs;mid\<close>: the
  second \<open>;\<close> and everything after it are discarded.
\<close>

theorem parseVocabularyLine_second_piece:
  assumes "CHR '';'' \<notin> set lhs" "CHR '';'' \<notin> set mid"
  shows "\<exists>c. parseVocabularyLine (lhs @ '';'' @ mid @ '';'' @ rest) = Inr c \<and>
              translated c = Some (trim mid) \<and>
              parseVocabularyLine (lhs @ '';'' @ mid) = Inr c"
proof -
  have a: "split '';'' (lhs @ CHR '';'' # mid @ CHR '';'' # rest) = lhs # mid # split '';'' rest"
    using assms by (simp add: split_at_sep)
  have b: "split '';'' (lhs @ CHR '';'' # mid) = [lhs, mid]"
    using assms by (simp add: split_at_sep split_no_sep)
  show ?thesis
    by (simp add: parseVocabularyLine_def Let_def a b split: option.splits prod.splits)
qed

text \<open>The theorem on the line \<open>a;b;c\<close>.\<close>

theorem parseVocabularyLine_second_piece_witness:
  "\<exists>c. parseVocabularyLine ''a;b;c'' = Inr c \<and> translated c = Some ''b'' \<and>
        parseVocabularyLine ''a;b'' = Inr c"
proof -
  have h: "CHR '';'' \<notin> set ''a''" "CHR '';'' \<notin> set ''b''" by simp_all
  have "trim ''b'' = ''b''" by (simp add: trim_def isWhiteSpace_def)
  then show ?thesis
    using parseVocabularyLine_second_piece[OF h, of "''c''"] by simp
qed

text \<open>
  C6 as stated fails: for \<open>a;b;c\<close> the claim wants \<open>translated = b;c\<close>, the code
  gives \<open>b\<close>.
\<close>

theorem parseVocabulary_multiple_separators_counterexample:
  "parseVocabulary ''a;b;c'' =
     Inr [\<lparr>original = ''a'', translated = Some ''b'', baseForm = Some ''a''\<rparr>] \<and>
   parseVocabulary ''a;b;c'' \<noteq>
     Inr [\<lparr>original = ''a'', translated = Some ''b;c'', baseForm = Some ''a''\<rparr>]"
  by code_simp

section \<open>Language Normalizer: questions and answers\<close>

text \<open>
  C4, as the code has it. The blocks are the non-empty pieces between blank-line
  separators, and none of them is filtered out. When every block holds a line break,
  \<open>parseQA\<close> returns one record per block, in order, built from the first two lines of the
  block whatever they are (marker replaced, trimmed; further lines are ignored).
  When some block is a single line, its answer is \<open>undefined\<close> and the whole parse
  raises a TypeError: no record is produced for any block.
\<close>

theorem parseQA_blocks:
  "((\<forall>b\<in>set (qaBlocks s). CHR 0x0A \<in> set b) \<longrightarrow>
      (\<exists>cs. parseQA s = Inr cs \<and> length cs = length (qaBlocks s) \<and>
         (\<forall>i<length cs.
            translated (cs ! i) =
              map_option (\<lambda>q. trim (replace ''F: '' [] q)) (element (split nl (qaBlocks s ! i)) 0) \<and>
            Some (original (cs ! i)) =
              map_option (\<lambda>a. trim (replace ''A: '' [] a)) (element (split nl (qaBlocks s ! i)) 1) \<and>
            baseForm (cs ! i) = None))) \<and>
   ((\<exists>b\<in>set (qaBlocks s). CHR 0x0A \<notin> set b) \<longrightarrow> parseQA s = Inl TypeError)"
proof (intro conjI impI)
  assume all: "\<forall>b\<in>set (qaBlocks s). CHR 0x0A \<in> set b"
  then have "\<And>b. b \<in> set (qaBlocks s) \<Longrightarrow> \<exists>c. parseQAPair b = Inr c"
    using parseQAPair_two_lines by blast
  then obtain cs where cs: "mapE parseQAPair (qaBlocks s) = Inr cs"
    "length cs = length (qaBlocks s)"
    "\<forall>i<length (qaBlocks s). parseQAPair (qaBlocks s ! i) = Inr (cs ! i)"
    using mapE_total[of "qaBlocks s" parseQAPair] by blast
  have "\<forall>i<length cs.
      translated (cs ! i) =
        map_option (\<lambda>q. trim (replace ''F: '' [] q)) (element (split nl (qaBlocks s ! i)) 0) \<and>
      Some (original (cs ! i)) =
        map_option (\<lambda>a. trim (replace ''A: '' [] a)) (element (split nl (qaBlocks s ! i)) 1) \<and>
      baseForm (cs ! i) = None"
  proof (intro allI impI)
    fix i assume i: "i < length cs"
    with cs have p: "parseQAPair (qaBlocks s ! i) = Inr (cs ! i)" by simp
    from i cs(2) all have "CHR 0x0A \<in> set (qaBlocks s ! i)" by simp
    from parseQAPair_two_lines[OF this] p
    show "translated (cs ! i) =
        map_option (\<lambda>q. trim (replace ''F: '' [] q)) (element (split nl (qaBlocks s ! i)) 0) \<and>
      Some (original (cs ! i)) =
        map_option (\<lambda>a. trim (replace ''A: '' [] a)) (element (split nl (qaBlocks s ! i)) 1) \<and>
      baseForm (cs ! i) = None" by auto
  qed
  with cs show "\<exists>cs. parseQA s = Inr cs \<and> length cs = length (qaBlocks s) \<and>
         (\<forall>i<length cs.
            translated (cs ! i) =
              map_option (\<lambda>q. trim (replace ''F: '' [] q)) (element (split nl (qaBlocks s ! i)) 0) \<and>
            Some (original (cs ! i)) =
              map_option (\<lambda>a. trim (replace ''A: '' [] a)) (element (split nl (qaBlocks s ! i)) 1) \<and>
            baseForm (cs ! i) = None)"
    by (auto simp: parseQA_def)
next
  assume "\<exists>b\<in>set (qaBlocks s). CHR 0x0A \<notin> set b"
  then obtain b where b: "b \<in> set (qaBlocks s)" "parseQAPair b = Inl TypeError"
    using parseQAPair_single_line by blast
  show "parseQA s = Inl TypeError"
    unfolding parseQA_def using b parseQAPair_error by (rule mapE_fail)
qed


text \<open>
  The theorem on two inputs. In the first, the first block has three lines and the
  second block starts with an empty line: both pass through, the second as a
  malformed record. In the second, the only block is a single line.
\<close>

theorem parseQA_blocks_witness:
  "(\<exists>cs. parseQA (''F: q'' @ nl @ ''A: a'' @ nl @ ''extra'' @ nl @ nl @ nl @ ''F: q2'' @ nl @ ''A: a2'')
           = Inr cs \<and> length cs = 2 \<and> translated (cs ! 1) = Some []) \<and>
   parseQA ''F: only a question'' = Inl TypeError"
proof -
  let ?s = "''F: q'' @ nl @ ''A: a'' @ nl @ ''extra'' @ nl @ nl @ nl @ ''F: q2'' @ nl @ ''A: a2''"
  let ?b1 = "''F: q'' @ nl @ ''A: a'' @ nl @ ''extra''" and ?b2 = "nl @ ''F: q2'' @ nl @ ''A: a2''"
  have "\<forall>b\<in>set (qaBlocks ?s). CHR 0x0A \<in> set b"
    unfolding qaBlocks_example by (simp add: nl_def)
  with parseQA_blocks[of ?s] obtain cs where cs: "parseQA ?s = Inr cs"
    "length cs = length (qaBlocks ?s)"
    "\<forall>i<length cs. translated (cs ! i) =
        map_option (\<lambda>q. trim (replace ''F: '' [] q)) (element (split nl (qaBlocks ?s ! i)) 0)"
    by blast
  from cs(2) have len: "length cs = 2" unfolding qaBlocks_example by simp
  then have "1 < length cs" by simp
  with cs(3) have "translated (cs ! 1) =
      map_option (\<lambda>q. trim (replace ''F: '' [] q)) (element (split nl (qaBlocks ?s ! 1)) 0)"
    by blast
  moreover have "element (split nl (qaBlocks ?s ! 1)) 0 = Some []"
    unfolding qaBlocks_example by (simp add: nl_def)
  ultimately have "translated (cs ! 1) = Some []" by (simp add: trim_def)
  with cs(1) len have first: "\<exists>cs. parseQA ?s = Inr cs \<and> length cs = 2 \<and>
      translated (cs ! 1) = Some []" by blast
  have "\<exists>b\<in>set (qaBlocks ''F: only a question''). CHR 0x0A \<notin> set b"
    unfolding qaBlocks_single_line by simp
  with parseQA_blocks[of "''F: only a question''"]
  have "parseQA ''F: only a question'' = Inl TypeError" by blast
  with first show ?thesis by (rule conjI)
qed

text \<open>
  C4 as stated fails: a block of one line is neither turned into a malformed record
  nor skipped; the parse raises.
\<close>

theorem parseQA_single_line_counterexample:
  "parseQA ''F: only a question'' = Inl TypeError"
  by code_simp

text \<open>
  C9, as the code has it. Take a block of exactly two lines, the first \<open>F: \<close> followed
  by the question and the second \<open>A: \<close> followed by the answer (the markers as the code
  and the prompt have them, with their space), and let its record hold the question,
  trimmed, in \<open>translated\<close> and the answer, trimmed, in \<open>original\<close>, both without their
  markers. The callback returns this record for the block. A response that is the
  block alone yields exactly this record. A response that starts with the block,
  followed by a blank line and any rest, yields this record in front of the records of
  the rest, provided the parse of the rest returns; when the rest raises, so does the
  whole parse, and the block yields nothing. And whenever the parse of a response
  returns, the record at the position of the block is this one.
\<close>

theorem parseQA_well_formed_block:
  assumes "CHR 0x0A \<notin> set q" "CHR 0x0A \<notin> set a"
  shows "parseQAPair (''F: '' @ q @ nl @ ''A: '' @ a) =
           Inr \<lparr>original = trim a, translated = Some (trim q), baseForm = None\<rparr> \<and>
         parseQA (''F: '' @ q @ nl @ ''A: '' @ a) =
           Inr [\<lparr>original = trim a, translated = Some (trim q), baseForm = None\<rparr>] \<and>
         (\<forall>rest. parseQA (''F: '' @ q @ nl @ ''A: '' @ a @ nl @ nl @ rest) =
            (case parseQA rest of
               Inl e \<Rightarrow> Inl e
             | Inr cs \<Rightarrow>
                 Inr (\<lparr>original = trim a, translated = Some (trim q), baseForm = None\<rparr> # cs))) \<and>
         (\<forall>response cs i.
            parseQA response = Inr cs \<and> i < length cs \<and>
            qaBlocks response ! i = ''F: '' @ q @ nl @ ''A: '' @ a \<longrightarrow>
            cs ! i = \<lparr>original = trim a, translated = Some (trim q), baseForm = None\<rparr>)"
proof -
  let ?p = "''F: '' @ q" and ?r = "''A: '' @ a"
  let ?rec = "\<lparr>original = trim a, translated = Some (trim q), baseForm = None\<rparr>"
  have np: "CHR 0x0A \<notin> set ?p" and nr: "CHR 0x0A \<notin> set ?r" and r: "?r \<noteq> []"
    using assms by simp_all
  have "split nl (?p @ nl @ ?r) = [?p, ?r]"
    using split_at_sep[OF np, of ?r] split_no_sep[OF nr] by (simp add: nl_def)
  then have pair: "parseQAPair (?p @ nl @ ?r) = Inr ?rec"
    by (simp add: parseQAPair_def)
  have "qaBlocks (?p @ nl @ ?r) = [?p @ nl @ ?r]"
    using split2_one_nl[OF np nr r] by (simp add: qaBlocks_def)
  then have single: "parseQA (?p @ nl @ ?r) = Inr [?rec]"
    using pair by (simp add: parseQA_def)
  have front: "\<forall>rest. parseQA (?p @ nl @ ?r @ nl @ nl @ rest) =
      (case parseQA rest of Inl e \<Rightarrow> Inl e | Inr cs \<Rightarrow> Inr (?rec # cs))"
  proof
    fix rest
    have "split (nl @ nl) (?p @ nl @ ?r @ nl @ nl @ rest) = (?p @ nl @ ?r) # split (nl @ nl) rest"
      using split2_block[OF np nr r, of rest] by simp
    then have "qaBlocks (?p @ nl @ ?r @ nl @ nl @ rest) = (?p @ nl @ ?r) # qaBlocks rest"
      by (simp add: qaBlocks_def)
    then show "parseQA (?p @ nl @ ?r @ nl @ nl @ rest) =
        (case parseQA rest of Inl e \<Rightarrow> Inl e | Inr cs \<Rightarrow> Inr (?rec # cs))"
      using pair by (simp add: parseQA_def split: sum.splits)
  qed
  have inside: "\<forall>response cs i.
      parseQA response = Inr cs \<and> i < length cs \<and> qaBlocks response ! i = ?p @ nl @ ?r \<longrightarrow>
      cs ! i = ?rec"
  proof (intro allI impI, elim conjE)
    fix response cs i
    assume ok: "parseQA response = Inr cs" "i < length cs"
      and b: "qaBlocks response ! i = ?p @ nl @ ?r"
    from ok have "parseQAPair (qaBlocks response ! i) = Inr (cs ! i)" by (rule parseQA_nth)
    with b pair show "cs ! i = ?rec" by simp
  qed
  from pair single front inside show ?thesis by simp
qed

text \<open>
  The theorem on the input of the claim, alone and in front of a second block.
\<close>

theorem parseQA_well_formed_block_witness:
  "CHR 0x0A \<notin> set ''Q (Qt)'' \<and> CHR 0x0A \<notin> set ''Ans (At)'' \<and>
   parseQA (''F: Q (Qt)'' @ nl @ ''A: Ans (At)'') =
     Inr [\<lparr>original = ''Ans (At)'', translated = Some ''Q (Qt)'', baseForm = None\<rparr>] \<and>
   parseQA (''F: Q (Qt)'' @ nl @ ''A: Ans (At)'' @ nl @ nl @ ''F: q2'' @ nl @ ''A: a2'') =
     Inr [\<lparr>original = ''Ans (At)'', translated = Some ''Q (Qt)'', baseForm = None\<rparr>,
          \<lparr>original = ''a2'', translated = Some ''q2'', baseForm = None\<rparr>]"
proof -
  have h: "CHR 0x0A \<notin> set ''Q (Qt)''" "CHR 0x0A \<notin> set ''Ans (At)''" by simp_all
  have h2: "CHR 0x0A \<notin> set ''q2''" "CHR 0x0A \<notin> set ''a2''" by simp_all
  have t: "trim ''Q (Qt)'' = ''Q (Qt)''" "trim ''Ans (At)'' = ''Ans (At)''"
    "trim ''q2'' = ''q2''" "trim ''a2'' = ''a2''"
    by (simp_all add: trim_def isWhiteSpace_def)
  note first = parseQA_well_formed_block[OF h]
  note second = parseQA_well_formed_block[OF h2]
  from second have s: "parseQA (''F: '' @ ''q2'' @ nl @ ''A: '' @ ''a2'') =
      Inr [\<lparr>original = ''a2'', translated = Some ''q2'', baseForm = None\<rparr>]"
    by (simp add: t)
  from first have one: "parseQA (''F: '' @ ''Q (Qt)'' @ nl @ ''A: '' @ ''Ans (At)'') =
      Inr [\<lparr>original = ''Ans (At)'', translated = Some ''Q (Qt)'', baseForm = None\<rparr>]"
    by (simp add: t)
  from first have "\<forall>rest. parseQA (''F: '' @ ''Q (Qt)'' @ nl @ ''A: '' @ ''Ans (At)'' @ nl @ nl @ rest) =
      (case parseQA rest of
         Inl e \<Rightarrow> Inl e
       | Inr cs \<Rightarrow>
           Inr (\<lparr>original = ''Ans (At)'', translated = Some ''Q (Qt)'', baseForm = None\<rparr> # cs))"
    by (simp only: t) blast
  then have "parseQA (''F: '' @ ''Q (Qt)'' @ nl @ ''A: '' @ ''Ans (At)'' @ nl @ nl @
        (''F: '' @ ''q2'' @ nl @ ''A: '' @ ''a2'')) =
      (case parseQA (''F: '' @ ''q2'' @ nl @ ''A: '' @ ''a2'') of
         Inl e \<Rightarrow> Inl e
       | Inr cs \<Rightarrow>
           Inr (\<lparr>original = ''Ans (At)'', translated = Some ''Q (Qt)'', baseForm = None\<rparr> # cs))"
    by blast
  then have two: "parseQA (''F: '' @ ''Q (Qt)'' @ nl @ ''A: '' @ ''Ans (At)'' @ nl @ nl @
        (''F: '' @ ''q2'' @ nl @ ''A: '' @ ''a2'')) =
      Inr [\<lparr>original = ''Ans (At)'', translated = Some ''Q (Qt)'', baseForm = None\<rparr>,
           \<lparr>original = ''a2'', translated = Some ''q2'', baseForm = None\<rparr>]"
    by (simp only: s sum.case)
  from one two h show ?thesis by simp
qed

text \<open>
  C9 as stated fails: in a response whose second block is a single line the first
  block is well formed, yet the parse raises and no record is stored for it.
\<close>

theorem parseQA_well_formed_block_counterexample:
  "parseQA (''F: q'' @ nl @ ''A: a'' @ nl @ nl @ ''F: lonely'') = Inl TypeError"
  by code_simp

section \<open>Deck Service Client: the payload\<close>

lemma payloadPairs_Nil: "payloadPairs [] = []"
  by (simp add: payloadPairs_def map_filter_simps)

lemma payloadPairs_Cons:
  "payloadPairs (e # es) =
     (case translated e of
        None \<Rightarrow> payloadPairs es
      | Some k \<Rightarrow>
          if trim k = ''__proto__'' then payloadPairs es
          else (trim k, trim (original e)) # payloadPairs es)"
  by (simp add: payloadPairs_def map_filter_simps split: option.splits)

lemma payloadPairs_append: "payloadPairs (xs @ ys) = payloadPairs xs @ payloadPairs ys"
  by (induction xs) (auto simp: payloadPairs_Nil payloadPairs_Cons split: option.splits)

lemma fst_payloadPairs:
  "(key \<in> fst ` set (payloadPairs es)) =
     (key \<noteq> ''__proto__'' \<and> (\<exists>e\<in>set es. \<exists>k. translated e = Some k \<and> trim k = key))"
  by (induction es)
    (auto simp: payloadPairs_Nil payloadPairs_Cons split: option.splits if_splits)

lemma fillVocabObject_closed:
  "\<forall>e\<in>set es. translated e \<noteq> None \<Longrightarrow>
   fillVocabObject es m = Inr (m ++ map_of (rev (payloadPairs es)))"
proof (induction es arbitrary: m)
  case Nil
  then show ?case by (simp add: payloadPairs_Nil)
next
  case (Cons e es)
  then obtain k where k: "translated e = Some k" by auto
  let ?m' = "assignProperty m (trim k) (trim (original e))"
  have "fillVocabObject es ?m' = Inr (?m' ++ map_of (rev (payloadPairs es)))"
    using Cons.prems by (intro Cons.IH) simp
  moreover have "?m' ++ map_of (rev (payloadPairs es)) =
      m ++ map_of (rev (payloadPairs (e # es)))"
    by (simp add: payloadPairs_Cons k map_add_upd_left assignProperty_def)
  ultimately show ?case using k by simp
qed

lemma fillVocabObject_undefined:
  "e \<in> set es \<Longrightarrow> translated e = None \<Longrightarrow> fillVocabObject es m = Inl TypeError"
  by (induction es arbitrary: m) (auto split: option.splits)

lemma buildPayload_undefined:
  "e \<in> set entries \<Longrightarrow> translated e = None \<Longrightarrow> buildPayload entries dn = Inl TypeError"
  by (simp add: buildPayload_def fillVocabObject_undefined)

lemma fillVocabObject_selected:
  "fillVocabObject (map (\<lambda>e. e\<lparr>selected := f e\<rparr>) es) m = fillVocabObject es m"
  by (induction es arbitrary: m) (auto split: option.splits)

lemma map_of_rev_last_wins:
  assumes "k \<notin> fst ` set ys"
  shows "map_of (rev (xs @ (k, v) # ys)) k = Some v"
proof -
  have "map_of (rev ys) k = None" using assms by (simp add: map_of_eq_None_iff)
  then show ?thesis by (simp add: map_add_def)
qed

lemma buildPayload_example:
  "buildPayload
     [\<lparr>original = ''house'', translated = Some ''haus'', baseForm = None, selected = True\<rparr>,
      \<lparr>original = ''house2'', translated = Some ''haus'', baseForm = None, selected = False\<rparr>]
     ''Verbs'' =
   Inr \<lparr>deck_name = ''Verbs'', vocabulary = [''haus'' \<mapsto> ''house2'']\<rparr>"
  by (simp add: buildPayload_def assignProperty_def trim_def isWhiteSpace_def)

text \<open>
  C7, as the code has it. Take entries whose \<open>translated\<close> is a string. Then
  \<open>buildPayload\<close> returns the deck name (or \<open>Default Deck\<close>) and a mapping \<open>m\<close> from the
  trimmed \<open>translated\<close> to the trimmed \<open>original\<close>. For every key other than the name
  \<open>__proto__\<close>: the key is in \<open>m\<close> exactly when some entry has it as its trimmed
  \<open>translated\<close>, so every such entry contributes; and the value under the key is the
  trimmed \<open>original\<close> of the last entry with that key, so a later entry overwrites an
  earlier one. The \<open>selected\<close> flags play no part: changing them in any way leaves the
  result the same. The two entries \<open>haus, house\<close> and \<open>haus, house2\<close> yield the mapping
  \<open>haus \<mapsto> house2\<close>.
\<close>

theorem buildPayload_mapping:
  assumes "\<forall>e\<in>set entries. translated e \<noteq> None"
  shows "(\<exists>m. buildPayload entries dn =
           Inr \<lparr>deck_name = (if dn \<noteq> [] then dn else ''Default Deck''), vocabulary = m\<rparr> \<and>
         (\<forall>key. key \<noteq> ''__proto__'' \<longrightarrow>
            (key \<in> dom m) = (\<exists>e\<in>set entries. \<exists>k. translated e = Some k \<and> trim k = key)) \<and>
         (\<forall>es e es' k.
            entries = es @ e # es' \<and> translated e = Some k \<and> trim k \<noteq> ''__proto__'' \<and>
            (\<forall>e'\<in>set es'. \<forall>k'. translated e' = Some k' \<longrightarrow> trim k' \<noteq> trim k) \<longrightarrow>
            m (trim k) = Some (trim (original e)))) \<and>
         buildPayload (map (\<lambda>e. e\<lparr>selected := f e\<rparr>) entries) dn = buildPayload entries dn \<and>
         buildPayload
           [\<lparr>original = ''house'', translated = Some ''haus'', baseForm = None, selected = True\<rparr>,
            \<lparr>original = ''house2'', translated = Some ''haus'', baseForm = None,
             selected = False\<rparr>]
           ''Verbs'' =
         Inr \<lparr>deck_name = ''Verbs'', vocabulary = [''haus'' \<mapsto> ''house2'']\<rparr>"
proof -
  let ?m = "map_of (rev (payloadPairs entries))"
  have fill: "fillVocabObject entries Map.empty = Inr ?m"
    using fillVocabObject_closed[OF assms, of Map.empty] by simp
  then have 1: "buildPayload entries dn =
      Inr \<lparr>deck_name = (if dn \<noteq> [] then dn else ''Default Deck''), vocabulary = ?m\<rparr>"
    by (simp add: buildPayload_def)
  have 2: "\<forall>key. key \<noteq> ''__proto__'' \<longrightarrow>
      (key \<in> dom ?m) = (\<exists>e\<in>set entries. \<exists>k. translated e = Some k \<and> trim k = key)"
  proof (intro allI impI)
    fix key :: string
    assume key: "key \<noteq> ''__proto__''"
    have "(key \<in> dom ?m) = (key \<in> fst ` set (payloadPairs entries))"
      by (simp add: dom_map_of_conv_image_fst)
    also have "\<dots> = (\<exists>e\<in>set entries. \<exists>k. translated e = Some k \<and> trim k = key)"
      using key by (simp only: fst_payloadPairs) simp
    finally show "(key \<in> dom ?m) =
        (\<exists>e\<in>set entries. \<exists>k. translated e = Some k \<and> trim k = key)" .
  qed
  have 3: "\<forall>es e es' k.
      entries = es @ e # es' \<and> translated e = Some k \<and> trim k \<noteq> ''__proto__'' \<and>
      (\<forall>e'\<in>set es'. \<forall>k'. translated e' = Some k' \<longrightarrow> trim k' \<noteq> trim k) \<longrightarrow>
      ?m (trim k) = Some (trim (original e))"
  proof (intro allI impI, elim conjE)
    fix es e es' k
    assume e: "entries = es @ e # es'" "translated e = Some k" "trim k \<noteq> ''__proto__''"
      and later: "\<forall>e'\<in>set es'. \<forall>k'. translated e' = Some k' \<longrightarrow> trim k' \<noteq> trim k"
    have "payloadPairs entries =
        payloadPairs es @ (trim k, trim (original e)) # payloadPairs es'"
      by (simp add: e payloadPairs_append payloadPairs_Cons)
    moreover have "trim k \<notin> fst ` set (payloadPairs es')"
      using later by (simp only: fst_payloadPairs) blast
    ultimately show "?m (trim k) = Some (trim (original e))"
      using map_of_rev_last_wins by metis
  qed
  have 4: "buildPayload (map (\<lambda>e. e\<lparr>selected := f e\<rparr>) entries) dn = buildPayload entries dn"
    by (simp add: buildPayload_def fillVocabObject_selected)
  from 1 2 3 have "\<exists>m. buildPayload entries dn =
           Inr \<lparr>deck_name = (if dn \<noteq> [] then dn else ''Default Deck''), vocabulary = m\<rparr> \<and>
         (\<forall>key. key \<noteq> ''__proto__'' \<longrightarrow>
            (key \<in> dom m) = (\<exists>e\<in>set entries. \<exists>k. translated e = Some k \<and> trim k = key)) \<and>
         (\<forall>es e es' k.
            entries = es @ e # es' \<and> translated e = Some k \<and> trim k \<noteq> ''__proto__'' \<and>
            (\<forall>e'\<in>set es'. \<forall>k'. translated e' = Some k' \<longrightarrow> trim k' \<noteq> trim k) \<longrightarrow>
            m (trim k) = Some (trim (original e)))"
    by blast
  with 4 buildPayload_example show ?thesis by blast
qed

text \<open>
  The theorem on the two entries of the claim, the second one deselected, with a
  third entry whose key has surrounding white space: all three keys are in the
  mapping, trimmed, and \<open>haus\<close> holds the value of the later entry.
\<close>

theorem buildPayload_mapping_witness:
  "\<exists>m. buildPayload
          [\<lparr>original = ''house'', translated = Some ''haus'', baseForm = None, selected = True\<rparr>,
           \<lparr>original = ''house2'', translated = Some ''haus'', baseForm = None,
            selected = False\<rparr>,
           \<lparr>original = ''tree '', translated = Some '' Baum'', baseForm = None,
            selected = True\<rparr>]
          ''Verbs'' = Inr \<lparr>deck_name = ''Verbs'', vocabulary = m\<rparr> \<and>
        ''haus'' \<in> dom m \<and> m ''haus'' = Some ''house2'' \<and> m ''Baum'' = Some ''tree''"
proof -
  let ?e1 = "\<lparr>original = ''house'', translated = Some ''haus'', baseForm = None, selected = True\<rparr>"
  let ?e2 = "\<lparr>original = ''house2'', translated = Some ''haus'', baseForm = None,
              selected = False\<rparr>"
  let ?e3 = "\<lparr>original = ''tree '', translated = Some '' Baum'', baseForm = None,
              selected = True\<rparr>"
  have h: "\<forall>e\<in>set [?e1, ?e2, ?e3]. translated e \<noteq> None" by simp
  have t: "trim ''haus'' = ''haus''" "trim ''house2'' = ''house2''" "trim '' Baum'' = ''Baum''"
    "trim ''tree '' = ''tree''"
    by (simp_all add: trim_def isWhiteSpace_def)
  note at_entries = buildPayload_mapping[where dn = "''Verbs''" and f = "\<lambda>e. True", OF h]
  from at_entries[THEN conjunct1] obtain m where all:
    "buildPayload [?e1, ?e2, ?e3] ''Verbs'' =
        Inr \<lparr>deck_name = (if ''Verbs'' \<noteq> [] then ''Verbs'' else ''Default Deck''),
             vocabulary = m\<rparr> \<and>
     (\<forall>key. key \<noteq> ''__proto__'' \<longrightarrow>
        (key \<in> dom m) =
        (\<exists>e\<in>set [?e1, ?e2, ?e3]. \<exists>k. translated e = Some k \<and> trim k = key)) \<and>
     (\<forall>es e es' k.
            [?e1, ?e2, ?e3] = es @ e # es' \<and> translated e = Some k \<and>
            trim k \<noteq> ''__proto__'' \<and>
            (\<forall>e'\<in>set es'. \<forall>k'. translated e' = Some k' \<longrightarrow> trim k' \<noteq> trim k) \<longrightarrow>
            m (trim k) = Some (trim (original e)))"
    by (rule exE)
  from all have m: "buildPayload [?e1, ?e2, ?e3] ''Verbs'' =
        Inr \<lparr>deck_name = (if ''Verbs'' \<noteq> [] then ''Verbs'' else ''Default Deck''),
             vocabulary = m\<rparr>"
    by (rule conjunct1)
  from all[THEN conjunct2] have d: "\<forall>key. key \<noteq> ''__proto__'' \<longrightarrow>
        (key \<in> dom m) =
        (\<exists>e\<in>set [?e1, ?e2, ?e3]. \<exists>k. translated e = Some k \<and> trim k = key)"
    by (rule conjunct1)
  from all[THEN conjunct2] have l: "\<forall>es e es' k.
            [?e1, ?e2, ?e3] = es @ e # es' \<and> translated e = Some k \<and>
            trim k \<noteq> ''__proto__'' \<and>
            (\<forall>e'\<in>set es'. \<forall>k'. translated e' = Some k' \<longrightarrow> trim k' \<noteq> trim k) \<longrightarrow>
            m (trim k) = Some (trim (original e))"
    by (rule conjunct2)
  have d': "''haus'' \<in> dom m"
    using d[rule_format, of "''haus''"] by (simp add: t)
  from l[rule_format, of "[?e1]" ?e2 "[?e3]" "''haus''"] have v: "m ''haus'' = Some ''house2''"
    using t by simp
  from l[rule_format, of "[?e1, ?e2]" ?e3 "[]" "'' Baum''"] have v': "m ''Baum'' = Some ''tree''"
    using t by simp
  from m d' v v' show ?thesis by simp
qed

text \<open>
  C7 as stated fails on three entry lists. A key with surrounding white space is
  stored trimmed, so the mapping is not from \<open>translated\<close> itself; an entry whose
  \<open>translated\<close> is undefined, as the vocabulary parser produces for a line without
  \<open>;\<close>, makes the loop raise and no mapping is built; and an entry whose key is
  \<open>__proto__\<close> contributes nothing.
\<close>

theorem buildPayload_entries_counterexample:
  "buildPayload
     [\<lparr>original = ''house'', translated = Some '' haus'', baseForm = None, selected = True\<rparr>]
     ''Verbs'' =
   Inr \<lparr>deck_name = ''Verbs'', vocabulary = [''haus'' \<mapsto> ''house'']\<rparr> \<and>
   buildPayload
     [\<lparr>original = ''cccc'', translated = None, baseForm = Some ''cccc'', selected = True\<rparr>]
     ''Verbs'' = Inl TypeError \<and>
   buildPayload
     [\<lparr>original = ''x'', translated = Some ''__proto__'', baseForm = None, selected = True\<rparr>]
     ''Verbs'' =
   Inr \<lparr>deck_name = ''Verbs'', vocabulary = Map.empty\<rparr>"
  by (simp add: buildPayload_def assignProperty_def trim_def isWhiteSpace_def)

section \<open>Deck Service Client: classification of failures\<close>

lemma t_unbound: "''t'' \<notin> set sendRequestToApi_scope"
  by (simp add: sendRequestToApi_scope_def module_scope_def host_globals_def)

lemma call_t_throws: "call_t tr text = Inl (ReferenceError ''t'')"
  using t_unbound by (simp add: call_t_def)

lemma statusTable_throws: "statusTable tr st = Inl (ReferenceError ''t'')"
  by (simp add: statusTable_def call_t_throws)

lemma firstMessage_cases:
  "firstMessage tr a b =
     (if truthy a then Inr a else if truthy b then Inr b else Inl (ReferenceError ''t''))"
  by (simp add: firstMessage_def call_t_throws)

lemma bodyMessage_ArrayBuffer: "\<exists>m. bodyMessage tr parse (ArrayBuffer text) = Inr m"
  by (auto simp: bodyMessage_def split: option.splits sum.splits)

lemma bodyMessage_Inl:
  "bodyMessage tr parse d = Inl x \<Longrightarrow>
   \<exists>v. d = Plain v \<and> \<not> truthy (optional_property v ''error'') \<and>
       \<not> truthy (optional_property v ''message'')"
proof (cases d)
  case (ArrayBuffer s)
  assume "bodyMessage tr parse d = Inl x"
  with ArrayBuffer bodyMessage_ArrayBuffer[of tr parse s] show ?thesis by simp
next
  case (Plain v)
  assume "bodyMessage tr parse d = Inl x"
  with Plain show ?thesis
    by (auto simp: bodyMessage_def firstMessage_cases split: if_splits)
qed

lemma classifyError_body:
  "bodyMessage tr parse d = Inr m \<Longrightarrow>
   classifyError tr parse \<lparr>response = Some \<lparr>status = st, data = d\<rparr>, code = c, request = rq,
     message = msg\<rparr> = Error (Message m)"
  by (simp add: classifyError_def errorMessage_def)


text \<open>
  C3, as the code has it. The body of the response has precedence over its status
  code: whenever the body yields a message, that message is thrown as a plain
  \<open>Error\<close>, whatever the status code. An ArrayBuffer body whose JSON has a truthy \<open>error\<close>
  field yields that field; an ArrayBuffer body that is not JSON yields its decoded
  text. The status table is reached only when the body is not an ArrayBuffer and has
  neither a truthy \<open>error\<close> nor a truthy \<open>message\<close>.
\<close>

theorem classifyError_body_precedence:
  "(bodyMessage tr parse d = Inr m \<longrightarrow>
      classifyError tr parse
        \<lparr>response = Some \<lparr>status = st, data = d\<rparr>, code = c, request = rq, message = msg\<rparr>
      = Error (Message m)) \<and>
   (parse bytes = Some v \<and> property v ''error'' = Inr e \<and> truthy e \<longrightarrow>
      bodyMessage tr parse (ArrayBuffer bytes) = Inr e) \<and>
   (parse bytes = None \<longrightarrow> bodyMessage tr parse (ArrayBuffer bytes) = Inr (Str bytes)) \<and>
   (bodyMessage tr parse d = Inl x \<longrightarrow>
      (\<exists>v. d = Plain v \<and> \<not> truthy (optional_property v ''error'') \<and>
           \<not> truthy (optional_property v ''message'')))"
proof (intro conjI impI)
  assume "bodyMessage tr parse d = Inr m"
  then show "classifyError tr parse
        \<lparr>response = Some \<lparr>status = st, data = d\<rparr>, code = c, request = rq, message = msg\<rparr>
      = Error (Message m)" by (rule classifyError_body)
next
  assume "parse bytes = Some v \<and> property v ''error'' = Inr e \<and> truthy e"
  then show "bodyMessage tr parse (ArrayBuffer bytes) = Inr e"
    by (auto simp: bodyMessage_def firstMessage_cases property_def split: jsval.splits)
next
  assume "parse bytes = None"
  then show "bodyMessage tr parse (ArrayBuffer bytes) = Inr (Str bytes)"
    by (simp add: bodyMessage_def)
next
  assume "bodyMessage tr parse d = Inl x"
  then show "\<exists>v. d = Plain v \<and> \<not> truthy (optional_property v ''error'') \<and>
           \<not> truthy (optional_property v ''message'')" by (rule bodyMessage_Inl)
qed

text \<open>
  The theorem on three responses with status 413, where \<open>JSON.parse\<close> accepts the text
  \<open>{"error":"too big"}\<close> and rejects the other: the JSON body gives \<open>too big\<close>, the
  text body gives its text, and the response without a body is one that reaches the
  status table.
\<close>

theorem classifyError_body_precedence_witness:
  \<open>classifyError id
      (\<lambda>s. if s = ''{"error":"too big"}'' then Some (Obj [(''error'', Str ''too big'')]) else None)
      \<lparr>response = Some \<lparr>status = 413, data = ArrayBuffer ''{"error":"too big"}''\<rparr>,
       code = Some ''ERR_BAD_REQUEST'', request = True,
       message = Message (Str ''Request failed with status code 413'')\<rparr>
    = Error (Message (Str ''too big'')) \<and>
   classifyError id
      (\<lambda>s. if s = ''{"error":"too big"}'' then Some (Obj [(''error'', Str ''too big'')]) else None)
      \<lparr>response = Some \<lparr>status = 413, data = ArrayBuffer ''Request Entity Too Large''\<rparr>,
       code = Some ''ERR_BAD_REQUEST'', request = True,
       message = Message (Str ''Request failed with status code 413'')\<rparr>
    = Error (Message (Str ''Request Entity Too Large'')) \<and>
   (\<exists>v. Plain Undefined = Plain v \<and> \<not> truthy (optional_property v ''error'') \<and>
        \<not> truthy (optional_property v ''message''))\<close>
proof -
  let ?parse =
    \<open>\<lambda>s. if s = ''{"error":"too big"}'' then Some (Obj [(''error'', Str ''too big'')]) else None\<close>
  let ?json = \<open>''{"error":"too big"}''\<close>
  let ?plain = "''Request Entity Too Large''"
  note thm1 = classifyError_body_precedence[where tr = id and parse = ?parse and st = 413
      and c = "Some ''ERR_BAD_REQUEST''" and rq = True
      and msg = "Message (Str ''Request failed with status code 413'')"]
  have p1: "?parse ?json = Some (Obj [(''error'', Str ''too big'')]) \<and>
      property (Obj [(''error'', Str ''too big'')]) ''error'' = Inr (Str ''too big'') \<and>
      truthy (Str ''too big'')"
    by (simp add: property_def truthy_def)
  have b1: "bodyMessage id ?parse (ArrayBuffer ?json) = Inr (Str ''too big'')"
    using thm1[where bytes = ?json and v = "Obj [(''error'', Str ''too big'')]"
        and e = "Str ''too big''"] p1 by blast
  have w1: "classifyError id ?parse
      \<lparr>response = Some \<lparr>status = 413, data = ArrayBuffer ?json\<rparr>,
       code = Some ''ERR_BAD_REQUEST'', request = True,
       message = Message (Str ''Request failed with status code 413'')\<rparr>
    = Error (Message (Str ''too big''))"
    using thm1[where d = "ArrayBuffer ?json" and m = "Str ''too big''"] b1 by blast
  have p2: "?parse ?plain = None" by simp
  have b2: "bodyMessage id ?parse (ArrayBuffer ?plain) = Inr (Str ?plain)"
    using thm1[where bytes = ?plain] p2 by blast
  have w2: "classifyError id ?parse
      \<lparr>response = Some \<lparr>status = 413, data = ArrayBuffer ?plain\<rparr>,
       code = Some ''ERR_BAD_REQUEST'', request = True,
       message = Message (Str ''Request failed with status code 413'')\<rparr>
    = Error (Message (Str ?plain))"
    using thm1[where d = "ArrayBuffer ?plain" and m = "Str ?plain"] b2 by blast
  have b3: "bodyMessage id ?parse (Plain Undefined) = Inl (ReferenceError ''t'')"
    by (simp add: bodyMessage_def firstMessage_cases optional_property_def property_def
        truthy_def)
  have w3: "\<exists>v. Plain Undefined = Plain v \<and> \<not> truthy (optional_property v ''error'') \<and>
        \<not> truthy (optional_property v ''message'')"
    using thm1[where d = "Plain Undefined" and x = "ReferenceError ''t''"] b3 by blast
  from w1 w2 w3 show ?thesis by blast
qed

text \<open>
  C3 as stated fails. A response with status 413 whose body is empty, or is a text
  that is not JSON, is reported with the decoded text of the body (the empty string in
  the first case); the table entry for 413 is not consulted.
\<close>

theorem classifyError_status_413_counterexample:
  "classifyError id (\<lambda>s. None)
     \<lparr>response = Some \<lparr>status = 413, data = ArrayBuffer []\<rparr>,
      code = Some ''ERR_BAD_REQUEST'', request = True,
      message = Message (Str ''Request failed with status code 413'')\<rparr>
   = Error (Message (Str [])) \<and>
   classifyError id (\<lambda>s. None)
     \<lparr>response = Some \<lparr>status = 413, data = ArrayBuffer ''Request Entity Too Large''\<rparr>,
      code = Some ''ERR_BAD_REQUEST'', request = True,
      message = Message (Str ''Request failed with status code 413'')\<rparr>
   = Error (Message (Str ''Request Entity Too Large''))"
  by (simp add: classifyError_def errorMessage_def bodyMessage_def)

text \<open>
  C10. The identifier \<open>t\<close> is not among the names \<open>sendRequestToApi\<close> can resolve. So the
  status table throws a ReferenceError for every status code; the classification
  throws it whenever it reaches the table, and whenever there is no response and the
  error is a timeout (\<open>ECONNABORTED\<close>), a network error (\<open>ERR_NETWORK\<close>) or a request
  without response; and \<open>sendRequestToApi\<close> then settles with that ReferenceError
  instead of an \<open>Error\<close> carrying the classified message.
\<close>

theorem sendRequestToApi_unbound_t:
  "''t'' \<notin> set sendRequestToApi_scope \<and>
   statusTable tr st = Inl (ReferenceError ''t'') \<and>
   (response error = Some r \<and> bodyMessage tr parse (data r) = Inl x \<longrightarrow>
      classifyError tr parse error = ReferenceError ''t'') \<and>
   (response error = None \<and>
      (code error = Some ''ECONNABORTED'' \<or> code error = Some ''ERR_NETWORK'' \<or> request error) \<longrightarrow>
      classifyError tr parse error = ReferenceError ''t'') \<and>
   (buildPayload entries dn = Inr p \<and> post p = Rejected error \<and>
      classifyError tr parse error = ReferenceError ''t'' \<longrightarrow>
      settled (sendRequestToApi tr parse post entries dn) = Inl (ReferenceError ''t''))"
  by (auto simp: t_unbound statusTable_throws classifyError_def errorMessage_def call_t_throws
      sendRequestToApi_def)


text \<open>
  The theorem on a request that times out, and on a response with status 413 and no
  body.
\<close>

theorem sendRequestToApi_unbound_t_witness:
  "settled (sendRequestToApi id (\<lambda>s. None)
      (\<lambda>p. Rejected \<lparr>response = None, code = Some ''ECONNABORTED'', request = True,
                     message = Message (Str ''timeout of 30000ms exceeded'')\<rparr>)
      [\<lparr>original = ''house'', translated = Some ''haus'', baseForm = None\<rparr>] ''Verbs'')
    = Inl (ReferenceError ''t'') \<and>
   classifyError id (\<lambda>s. None)
      \<lparr>response = Some \<lparr>status = 413, data = Plain Undefined\<rparr>, code = Some ''ERR_BAD_REQUEST'',
       request = True, message = Message (Str ''Request failed with status code 413'')\<rparr>
    = ReferenceError ''t''"
proof -
  let ?timeout = "\<lparr>response = None, code = Some ''ECONNABORTED'', request = True,
                   message = Message (Str ''timeout of 30000ms exceeded'')\<rparr>"
  let ?big = "\<lparr>response = Some \<lparr>status = 413, data = Plain Undefined\<rparr>,
               code = Some ''ERR_BAD_REQUEST'', request = True,
               message = Message (Str ''Request failed with status code 413'')\<rparr>"
  let ?entries = "[\<lparr>original = ''house'', translated = Some ''haus'', baseForm = None\<rparr>]"
  obtain p where p: "buildPayload ?entries ''Verbs'' = Inr p"
    by (simp add: buildPayload_def)
  note at_timeout = sendRequestToApi_unbound_t[where error = ?timeout and tr = id
      and parse = "\<lambda>s. None" and entries = ?entries and dn = "''Verbs''" and p = p
      and post = "\<lambda>p. Rejected ?timeout" and st = 413
      and r = "\<lparr>status = 413, data = Plain Undefined\<rparr>" and x = "ReferenceError ''t''"]
  have c: "classifyError id (\<lambda>s. None) ?timeout = ReferenceError ''t''"
    using at_timeout by simp
  have w1: "settled (sendRequestToApi id (\<lambda>s. None) (\<lambda>p. Rejected ?timeout) ?entries ''Verbs'')
      = Inl (ReferenceError ''t'')"
    using at_timeout p c by blast
  have b: "bodyMessage id (\<lambda>s. None) (Plain Undefined) = Inl (ReferenceError ''t'')"
    by (simp add: bodyMessage_def firstMessage_cases optional_property_def property_def
        truthy_def)
  have w2: "classifyError id (\<lambda>s. None) ?big = ReferenceError ''t''"
    using sendRequestToApi_unbound_t[where error = ?big and tr = id and parse = "\<lambda>s. None"
        and entries = ?entries and dn = "''Verbs''" and p = p
        and post = "\<lambda>p. Rejected ?big" and st = 413
        and r = "\<lparr>status = 413, data = Plain Undefined\<rparr>" and x = "ReferenceError ''t''"] b
    by simp
  from w1 w2 show ?thesis by (rule conjI)
qed

section \<open>Selection Editor and workflow\<close>

text \<open>
  C8. When no word is selected, \<open>handleSubmit\<close> opens the error dialog asking to select
  at least one word and does nothing else: no payload is posted, nothing is
  downloaded, the step does not change and the same screen stays rendered.
\<close>

theorem handleSubmit_empty_selection:
  assumes "filter selected (selectedWords w) = []"
  shows "handleSubmit tr parse post w =
           w\<lparr>alerts := alerts w @
                [(tr ''Error'', Message (Str (tr ''Please select at least one word.'')))],
             isLoading := False\<rparr> \<and>
         requests (handleSubmit tr parse post w) = requests w \<and>
         downloads (handleSubmit tr parse post w) = downloads w \<and>
         step (handleSubmit tr parse post w) = step w \<and>
         render (handleSubmit tr parse post w) = render w"
  using assms by (simp add: handleSubmit_def Let_def alert_def render_def)


text \<open>The theorem on a selection screen whose only word is deselected.\<close>

theorem handleSubmit_empty_selection_witness:
  "alerts (handleSubmit id (\<lambda>s. None) (\<lambda>p. Resolved \<lparr>status = 200, data = ArrayBuffer ''PK''\<rparr>)
     (initialWorld\<lparr>step := SelectionStep,
        selectedWords := [\<lparr>original = ''house'', translated = Some ''haus'', baseForm = None,
                           selected = False\<rparr>]\<rparr>))
     = [(''Error'', Message (Str ''Please select at least one word.''))] \<and>
   requests (handleSubmit id (\<lambda>s. None) (\<lambda>p. Resolved \<lparr>status = 200, data = ArrayBuffer ''PK''\<rparr>)
     (initialWorld\<lparr>step := SelectionStep,
        selectedWords := [\<lparr>original = ''house'', translated = Some ''haus'', baseForm = None,
                           selected = False\<rparr>]\<rparr>)) = [] \<and>
   step (handleSubmit id (\<lambda>s. None) (\<lambda>p. Resolved \<lparr>status = 200, data = ArrayBuffer ''PK''\<rparr>)
     (initialWorld\<lparr>step := SelectionStep,
        selectedWords := [\<lparr>original = ''house'', translated = Some ''haus'', baseForm = None,
                           selected = False\<rparr>]\<rparr>)) = SelectionStep"
proof -
  let ?w = "initialWorld\<lparr>step := SelectionStep,
        selectedWords := [\<lparr>original = ''house'', translated = Some ''haus'', baseForm = None,
                           selected = False\<rparr>]\<rparr>"
  have h: "filter selected (selectedWords ?w) = []" by simp
  show ?thesis
    using handleSubmit_empty_selection[OF h, of id "\<lambda>s. None" "\<lambda>p. Resolved \<lparr>status = 200, data = ArrayBuffer ''PK''\<rparr>"]
    by (simp add: initialWorld_def)
qed


text \<open>
  C2, as the code has it. In the \<open>result\<close> step the only action some screen accepts is
  the reset, and it runs \<open>resetApp\<close>: the step becomes \<open>language\<close>, and
  \<open>selectedLanguage\<close>, \<open>extractedWords\<close>, \<open>processing\<close> and \<open>downloadUrl\<close> are back at
  their initial values. \<open>resetApp\<close> does not write \<open>deckName\<close> or \<open>inputText\<close>: they keep
  their values.
\<close>

theorem result_exit_is_reset:
  assumes "step w = ResultStep" "fire tr parse ev w = Some w'"
  shows "ev = Reset \<and> w' = resetApp w \<and> step w' = LanguageStep \<and> selectedLanguage w' = None \<and>
         extractedWords w' = [] \<and> processing w' = [] \<and> downloadUrl w' = Some [] \<and>
         deckName w' = deckName w \<and> inputText w' = inputText w"
proof -
  have r: "render w = ResultScreen \<or> render w = ProcessingScreen"
    using assms(1) by (simp add: render_def)
  then have "ev = Reset \<and> w' = resetApp w"
    using assms(2) by (cases ev) (auto simp: fire_def split: if_splits)
  then show ?thesis by (simp add: resetApp_def)
qed


text \<open>
  The theorem on a \<open>result\<close> state that carries a language, one word, the deck name
  \<open>Verbs\<close> and an input text: the reset clears the language and the word and leaves the
  deck name and the input text.
\<close>

theorem result_exit_is_reset_witness:
  "fire id (\<lambda>s. None) Reset
     (initialWorld\<lparr>step := ResultStep,
        selectedLanguage := Some \<lparr>langCode = ''de'', langName = ''Deutsch'', flag = ''DE''\<rparr>,
        downloadUrl := None,
        extractedWords :=
          [\<lparr>original = ''Haus'', translated = Some ''house'', baseForm = Some ''Haus''\<rparr>],
        deckName := ''Verbs'', inputText := ''Das Haus''\<rparr>)
   = Some (initialWorld\<lparr>deckName := ''Verbs'', inputText := ''Das Haus''\<rparr>)"
proof -
  let ?w = "initialWorld\<lparr>step := ResultStep,
        selectedLanguage := Some \<lparr>langCode = ''de'', langName = ''Deutsch'', flag = ''DE''\<rparr>,
        downloadUrl := None,
        extractedWords :=
          [\<lparr>original = ''Haus'', translated = Some ''house'', baseForm = Some ''Haus''\<rparr>],
        deckName := ''Verbs'', inputText := ''Das Haus''\<rparr>"
  have s: "step ?w = ResultStep" by simp
  have "render ?w = ResultScreen" by (simp add: render_def initialWorld_def)
  then obtain w' where f: "fire id (\<lambda>s. None) Reset ?w = Some w'"
    by (simp add: fire_def)
  from result_exit_is_reset[OF s f]
  have "step w' = LanguageStep \<and> selectedLanguage w' = None \<and> extractedWords w' = [] \<and>
      processing w' = [] \<and> downloadUrl w' = Some [] \<and> deckName w' = deckName ?w \<and>
      inputText w' = inputText ?w \<and> w' = resetApp ?w"
    by blast
  then have "w' = initialWorld\<lparr>deckName := ''Verbs'', inputText := ''Das Haus''\<rparr>"
    by (simp add: resetApp_def initialWorld_def)
  with f show ?thesis by simp
qed

text \<open>
  C2 as stated fails, on the state reached by a whole run: German is chosen, a text
  is entered, the vocabulary deck type is selected (the language model suggests the
  name \<open>Verbs\<close> and answers \<open>Haus;house\<close>), and the deck is submitted and downloaded.
  After the reset the step is \<open>language\<close>, the language and the words are cleared, and
  the deck name is still \<open>Verbs\<close>.
\<close>

theorem resetApp_deckName_counterexample:
  "map_option (\<lambda>w. (step w, selectedLanguage w, extractedWords w, deckName w))
     (Option.bind (Option.bind (Option.bind (Option.bind (Option.bind
        (fire id (\<lambda>s. None)
           (SelectLanguage \<lparr>langCode = ''de'', langName = ''Deutsch'', flag = ''DE''\<rparr>)
           initialWorld)
        (fire id (\<lambda>s. None) EnterText))
        (fire id (\<lambda>s. None) (SubmitText ''Das Haus'')))
        (fire id (\<lambda>s. None) (SelectType Vocabulary (Inr ''Verbs'') (Inr ''Haus;house''))))
        (fire id (\<lambda>s. None)
           (Submit (\<lambda>p. Resolved \<lparr>status = 200, data = ArrayBuffer ''PK''\<rparr>))))
        (fire id (\<lambda>s. None) Reset))
   = Some (LanguageStep, None, [], ''Verbs'')"
  by code_simp

end
